theory Spec2Isabelle
  imports Complex_Main
begin

section \<open>JavaScript values\<close>

text \<open>
  A JavaScript number is an IEEE double. The finite ones are embedded as the rationals
  they denote; the two infinities and NaN are separate values. Rounding of an inexact
  quotient and the sign of zero are not represented.
\<close>

datatype jsnum = Fin rat | PosInf | NegInf | NaN

text \<open>
  The operator \<^verbatim>\<open>/\<close> on numbers. HOL's own division gives \<open>x / 0 = 0\<close>; JavaScript
  gives an infinity or NaN, which is written out here.
\<close>

fun num_div :: "jsnum \<Rightarrow> jsnum \<Rightarrow> jsnum" where
  "num_div NaN y = NaN"
| "num_div x NaN = NaN"
| "num_div (Fin a) (Fin b) =
     (if b = 0 then (if a = 0 then NaN else if 0 < a then PosInf else NegInf)
      else Fin (a / b))"
| "num_div (Fin a) y = Fin 0"
| "num_div PosInf (Fin b) = (if b < 0 then NegInf else PosInf)"
| "num_div NegInf (Fin b) = (if b < 0 then PosInf else NegInf)"
| "num_div x y = NaN"

text \<open>
  What \<^verbatim>\<open>value.valueOf()\<close> does when \<^verbatim>\<open>typeof value.valueOf === "function"\<close>: the
  call throws (an error with the given message), or it returns a number, a string, or
  something of another type (for a plain object, \<^verbatim>\<open>Object.prototype.valueOf\<close> returns
  the object itself).
\<close>

datatype valueOf_result = VThrows string | VNumber jsnum | VString string | VOther

text \<open>
  The values \<^verbatim>\<open>toSerializable\<close> distinguishes (its parameter has type \<^verbatim>\<open>any\<close>).
  Proxies, whose traps can make \<^verbatim>\<open>instanceof\<close> and \<^verbatim>\<open>Array.isArray\<close> throw, and arrays
  that carry a \<^verbatim>\<open>toDate\<close> property are left out; the call stack is taken to be deep
  enough for the nesting of an array that does not contain itself.
  \<^item> \<open>JDate isoString\<close> is a native \<^verbatim>\<open>Date\<close>; \<open>isoString\<close> is what
    \<^verbatim>\<open>toISOString()\<close> returns, \<open>None\<close> for an invalid date, where it throws a
    RangeError.
  \<^item> \<open>JObj toDate valueOf props str\<close> is any other value (an object that is not an
    array, a function, a bigint or a symbol), described by what the serializer observes
    of it:
    \<open>toDate\<close> is \<open>None\<close> unless \<^verbatim>\<open>typeof value.toDate === "function"\<close>, and then
    holds the outcome of \<^verbatim>\<open>value.toDate().toISOString()\<close> (\<open>None\<close> when that throws);
    \<open>valueOf\<close> is \<open>None\<close> unless \<^verbatim>\<open>typeof value.valueOf === "function"\<close>;
    \<open>props\<close> are the data properties read by \<^verbatim>\<open>value.num\<close> and \<^verbatim>\<open>value.den\<close>;
    \<open>str\<close> is the outcome of \<^verbatim>\<open>String(value)\<close>, \<open>None\<close> when it throws a TypeError
    (an object without \<^verbatim>\<open>toString\<close> and \<^verbatim>\<open>valueOf\<close>, such as
    \<^verbatim>\<open>Object.create(null)\<close>). Reading a property of a \<open>JObj\<close> never throws.
  \<^item> \<open>JCycle\<close>, as an element of an array, is one of the arrays that enclose it: the
    array is cyclic.
  \<^item> \<open>JAcc toDateRead valueOfRead numRead denRead str\<close> is an object with accessor
    properties: each read the serializer makes outside its \<^verbatim>\<open>try\<close> block, of
    \<^verbatim>\<open>value.toDate\<close>, \<^verbatim>\<open>value.valueOf\<close>, \<^verbatim>\<open>value.num\<close> and \<^verbatim>\<open>value.den\<close>, either
    throws (\<open>Inl\<close>, with the error's message) or gives what it gives for a \<open>JObj\<close>
    (\<open>Inr\<close>; an absent \<^verbatim>\<open>num\<close> or \<^verbatim>\<open>den\<close> reads as \<open>JUndefined\<close>).
\<close>

datatype jsval =
    JNull
  | JUndefined
  | JStr string
  | JNum jsnum
  | JBool bool
  | JDate "string option"
  | JArr "jsval list"
  | JObj "string option option" "valueOf_result option" "(string \<times> jsval) list" "string option"
  | JCycle
  | JAcc "string + string option option" "string + valueOf_result option" "string + jsval"
      "string + jsval" "string option"

text \<open>An object literal: prototype \<^verbatim>\<open>Object.prototype\<close>, no method of its own.\<close>

definition plainObject :: "(string \<times> jsval) list \<Rightarrow> jsval" where
  "plainObject ps = JObj None (Some VOther) ps (Some ''[object Object]'')"

text \<open>\<^verbatim>\<open>Object.create(null)\<close> with data properties: no inherited method at all.\<close>

definition nullProtoObject :: "(string \<times> jsval) list \<Rightarrow> jsval" where
  "nullProtoObject ps = JObj None None ps None"

text \<open>The serialized values: string, number, boolean, null, or an array of them.\<close>

datatype sval = SNull | SStr string | SNum jsnum | SBool bool | SArr "sval list"

datatype error =
    ValueOfThrew string
  | TypeError
  | JsError string
  | AccessorThrew string
  | RangeError

text \<open>Sequencing of a computation that may throw.\<close>

definition andThen :: "error + 'a \<Rightarrow> ('a \<Rightarrow> error + 'b) \<Rightarrow> error + 'b" where
  "andThen r f = (case r of Inl e \<Rightarrow> Inl e | Inr x \<Rightarrow> f x)"

text \<open>\<^verbatim>\<open>Array.prototype.map\<close> with a callback that may throw: the first throw ends it.\<close>

fun sequence :: "(error + 'a) list \<Rightarrow> error + 'a list" where
  "sequence [] = Inr []"
| "sequence (r # rs) =
     (case r of Inl e \<Rightarrow> Inl e
      | Inr x \<Rightarrow> (case sequence rs of Inl e \<Rightarrow> Inl e | Inr xs \<Rightarrow> Inr (x # xs)))"

text \<open>\<^verbatim>\<open>String(value)\<close> on an object.\<close>

definition String_of :: "string option \<Rightarrow> error + sval" where
  "String_of str = (case str of None \<Rightarrow> Inl TypeError | Some s \<Rightarrow> Inr (SStr s))"

section \<open>utils.ts\<close>

definition FILESYSTEM_LEAKY_TAGS :: "string list" where
  "FILESYSTEM_LEAKY_TAGS =
     [''Directory'', ''FileName'', ''FileModifyDate'', ''FileAccessDate'',
      ''FileInodeChangeDate'', ''FilePermissions'', ''FileType'', ''FileTypeExtension'',
      ''MIMEType'', ''ExifToolVersion'', ''SourceFile'']"

definition EXIF_PRESET_MAPPINGS :: "(string \<times> string list) list" where
  "EXIF_PRESET_MAPPINGS =
     [(''basic'', [''FileSize'', ''ImageWidth'', ''ImageHeight'']),
      (''camera'',
        [''Make'', ''Model'', ''LensModel'', ''Lens'', ''LensID'', ''LensInfo'',
         ''LensSerialNumber'', ''SerialNumber'', ''BodySerialNumber'',
         ''CameraSerialNumber'', ''LensMake'', ''MaxAperture'', ''MinFocalLength'',
         ''MaxFocalLength'']),
      (''exposure'',
        [''ISO'', ''FNumber'', ''ExposureTime'', ''ShutterSpeed'', ''FocalLength'',
         ''FocalLengthIn35mmFormat'', ''Flash'', ''WhiteBalance'', ''ExposureMode'',
         ''MeteringMode'']),
      (''datetime'', [''DateTimeOriginal'', ''CreateDate'', ''DateTime'']),
      (''location'',
        [''GPSLatitude'', ''GPSLongitude'', ''GPSAltitude'', ''Country'', ''State'',
         ''City'', ''Location'', ''Sub-location'', ''GPSAreaInformation'',
         ''Country-PrimaryLocationCode'', ''Province-State'']),
      (''technical'',
        [''ColorSpace'', ''Orientation'', ''Software'', ''SceneType'',
         ''SceneCaptureType'']),
      (''metadata'',
        [''Artist'', ''Copyright'', ''ImageDescription'', ''Keywords'', ''Title'',
         ''Subject''])]"

text \<open>
  The cases of \<^verbatim>\<open>toSerializable\<close> in the order of the source. Only the date conversion
  is inside \<^verbatim>\<open>try\<close>; its \<^verbatim>\<open>catch\<close> returns \<^verbatim>\<open>String(value)\<close>, which for an invalid
  native date is the text \<^verbatim>\<open>Invalid Date\<close>. The property reads in the conditions, the
  call \<^verbatim>\<open>value.valueOf()\<close> and the final \<^verbatim>\<open>String(value)\<close> are unguarded;
  \<^verbatim>\<open>value.den\<close> is read only when \<^verbatim>\<open>value.num\<close> is a number. Serializing a cyclic
  array re-enters the array without end, until the call stack is exhausted and the
  engine throws a RangeError.
\<close>

fun toSerializable :: "jsval \<Rightarrow> error + sval" where
  "toSerializable JNull = Inr SNull"
| "toSerializable JUndefined = Inr SNull"
| "toSerializable (JStr s) = Inr (SStr s)"
| "toSerializable (JNum n) = Inr (SNum n)"
| "toSerializable (JBool b) = Inr (SBool b)"
| "toSerializable (JDate isoString) =
     (case isoString of Some s \<Rightarrow> Inr (SStr s) | None \<Rightarrow> Inr (SStr ''Invalid Date''))"
| "toSerializable (JArr vs) =
     (case sequence (map toSerializable vs) of Inl e \<Rightarrow> Inl e | Inr rs \<Rightarrow> Inr (SArr rs))"
| "toSerializable (JObj toDate valueOf ps str) =
     (case toDate of
        Some conv \<Rightarrow> (case conv of Some s \<Rightarrow> Inr (SStr s) | None \<Rightarrow> String_of str)
      | None \<Rightarrow>
          (case valueOf of
             Some (VThrows msg) \<Rightarrow> Inl (ValueOfThrew msg)
           | Some (VNumber n) \<Rightarrow> Inr (SNum n)
           | Some (VString s) \<Rightarrow> Inr (SStr s)
           | _ \<Rightarrow>
               (case (map_of ps ''num'', map_of ps ''den'') of
                  (Some (JNum n), Some (JNum d)) \<Rightarrow> Inr (SNum (num_div n d))
                | _ \<Rightarrow> String_of str)))"
| "toSerializable JCycle = Inl RangeError"
| "toSerializable (JAcc toDateRead valueOfRead numRead denRead str) =
     (case toDateRead of
        Inl msg \<Rightarrow> Inl (AccessorThrew msg)
      | Inr toDate \<Rightarrow>
          (case toDate of
             Some conv \<Rightarrow> (case conv of Some s \<Rightarrow> Inr (SStr s) | None \<Rightarrow> String_of str)
           | None \<Rightarrow>
               (case valueOfRead of
                  Inl msg \<Rightarrow> Inl (AccessorThrew msg)
                | Inr valueOf \<Rightarrow>
                    (case valueOf of
                       Some (VThrows msg) \<Rightarrow> Inl (ValueOfThrew msg)
                     | Some (VNumber n) \<Rightarrow> Inr (SNum n)
                     | Some (VString s) \<Rightarrow> Inr (SStr s)
                     | _ \<Rightarrow>
                         (case numRead of
                            Inl msg \<Rightarrow> Inl (AccessorThrew msg)
                          | Inr (JNum n) \<Rightarrow>
                              (case denRead of
                                 Inl msg \<Rightarrow> Inl (AccessorThrew msg)
                               | Inr (JNum d) \<Rightarrow> Inr (SNum (num_div n d))
                               | Inr other \<Rightarrow> String_of str)
                          | Inr other \<Rightarrow> String_of str)))))"

text \<open>
  The record built by \<^verbatim>\<open>buildImageData\<close>: an object whose properties hold serialized
  values, except \<^verbatim>\<open>rawExif\<close>, which holds a nested object of serialized values.
\<close>

datatype field = Val sval | Raw "string \<rightharpoonup> sval"

type_synonym image_data = "string \<rightharpoonup> field"

text \<open>\<^verbatim>\<open>Object.entries(tags)\<close>: the own properties of the parsed record, in order.\<close>

type_synonym tags = "(string \<times> jsval) list"

text \<open>A JavaScript \<^verbatim>\<open>Set\<close> of strings: its elements in insertion order, without repetition.\<close>

type_synonym tagset = "string list"

definition has :: "tagset \<Rightarrow> string \<Rightarrow> bool" where
  "has s x = (x \<in> set s)"

definition add :: "tagset \<Rightarrow> string \<Rightarrow> tagset" where
  "add s x = (if x \<in> set s then s else s @ [x])"

text \<open>The loop over \<^verbatim>\<open>Object.entries(tags)\<close> of the branch \<^verbatim>\<open>tagsToExtract === null\<close>.\<close>

fun extract_all :: "tagset \<Rightarrow> tags \<Rightarrow> image_data \<Rightarrow> error + image_data" where
  "extract_all excludeTags [] data = Inr data"
| "extract_all excludeTags ((tagName, tagValue) # rest) data =
     (if tagValue \<noteq> JNull \<and> tagValue \<noteq> JUndefined \<and> \<not> has excludeTags tagName
      then andThen (toSerializable tagValue)
             (\<lambda>s. extract_all excludeTags rest (data(tagName \<mapsto> Val s)))
      else extract_all excludeTags rest data)"

text \<open>The loop over \<^verbatim>\<open>tagsToExtract\<close> of the branch \<^verbatim>\<open>tagsToExtract.size > 0\<close>.\<close>

fun extract_selected :: "tagset \<Rightarrow> tags \<Rightarrow> string list \<Rightarrow> image_data \<Rightarrow> error + image_data" where
  "extract_selected excludeTags tags [] data = Inr data"
| "extract_selected excludeTags tags (tagName # rest) data =
     (if \<not> has excludeTags tagName
      then (case map_of tags tagName of
              None \<Rightarrow> extract_selected excludeTags tags rest data
            | Some tagValue \<Rightarrow>
                if tagValue \<noteq> JNull \<and> tagValue \<noteq> JUndefined
                then andThen (toSerializable tagValue)
                       (\<lambda>s. extract_selected excludeTags tags rest (data(tagName \<mapsto> Val s)))
                else extract_selected excludeTags tags rest data)
      else extract_selected excludeTags tags rest data)"

text \<open>The loop that fills \<^verbatim>\<open>data.rawExif\<close>.\<close>

fun collect_raw :: "tags \<Rightarrow> (string \<rightharpoonup> sval) \<Rightarrow> error + (string \<rightharpoonup> sval)" where
  "collect_raw [] raw = Inr raw"
| "collect_raw ((tagName, tagValue) # rest) raw =
     (if tagValue \<noteq> JNull \<and> tagValue \<noteq> JUndefined
      then andThen (toSerializable tagValue) (\<lambda>s. collect_raw rest (raw(tagName \<mapsto> s)))
      else collect_raw rest raw)"

text \<open>
  \<^verbatim>\<open>tagsToExtract\<close> is \<open>None\<close> for the source's \<^verbatim>\<open>null\<close> (extract all), otherwise the
  set of selected tags.
\<close>

definition buildImageData ::
  "tags \<Rightarrow> string \<Rightarrow> string \<Rightarrow> jsnum \<Rightarrow> tagset option \<Rightarrow> tagset \<Rightarrow> bool \<Rightarrow> error + image_data"
where
  "buildImageData tags fileName mtime fileSize tagsToExtract excludeTags includeRawExif =
     (let data = [''fileName'' \<mapsto> Val (SStr fileName), ''mtime'' \<mapsto> Val (SStr mtime)] in
      andThen
        (case tagsToExtract of
           None \<Rightarrow>
             andThen (extract_all excludeTags tags data)
               (\<lambda>data. Inr (data(''FileSize'' \<mapsto> Val (SNum fileSize))))
         | Some sel \<Rightarrow>
             if sel \<noteq> []
             then andThen (extract_selected excludeTags tags sel data)
                    (\<lambda>data.
                       if has sel ''FileSize'' \<and> \<not> has excludeTags ''FileSize''
                       then Inr (data(''FileSize'' \<mapsto> Val (SNum fileSize)))
                       else Inr data)
             else Inr data)
        (\<lambda>data.
           if includeRawExif
           then andThen (collect_raw tags Map.empty)
                  (\<lambda>raw. Inr (data(''rawExif'' \<mapsto> Raw raw)))
           else Inr data))"

section \<open>loader.ts: the loader's configuration\<close>

text \<open>\<^verbatim>\<open>new Set(xs)\<close>: the elements of \<open>xs\<close> are added one after the other.\<close>

definition Set_of :: "string list \<Rightarrow> tagset" where
  "Set_of xs = fold (\<lambda>x s. add s x) xs []"

definition determineTagsToExtract :: "string list \<Rightarrow> string list \<Rightarrow> tagset" where
  "determineTagsToExtract presets tags =
     (let tagsSet =
        fold (\<lambda>preset tagsSet.
                case map_of EXIF_PRESET_MAPPINGS preset of
                  Some presetTags \<Rightarrow> fold (\<lambda>tag s. add s tag) presetTags tagsSet
                | None \<Rightarrow> tagsSet)
          presets []
      in fold (\<lambda>tag s. add s tag) tags tagsSet)"

text \<open>\<^verbatim>\<open>pattern: string | string[]\<close>\<close>

datatype pattern = Single string | Several "string list"

record ExifDirectoryOptions =
  dir_pattern :: pattern
  dir_base :: "string option"

text \<open>Every option may be absent; \<open>None\<close> is the source's \<^verbatim>\<open>undefined\<close>.\<close>

record ExifLoaderOptions =
  opt_imagesDir :: "ExifDirectoryOptions option"
  opt_presets :: "string list option"
  opt_tags :: "string list option"
  opt_excludeTags :: "string list option"
  opt_extractAll :: "bool option"
  opt_includeRawExif :: "bool option"

text \<open>A destructuring default: \<^verbatim>\<open>const { x = d } = options\<close>.\<close>

definition orDefault :: "'a \<Rightarrow> 'a option \<Rightarrow> 'a" where
  "orDefault d x = (case x of None \<Rightarrow> d | Some v \<Rightarrow> v)"

text \<open>
  What \<^verbatim>\<open>createExifLoader\<close> computes before it returns the loader object; the
  \<^verbatim>\<open>load\<close> callback and the watcher's handlers close over these values.
\<close>

record loader =
  ld_imagesDir :: ExifDirectoryOptions
  ld_tagsToExtract :: "tagset option"
  ld_excludeTagsSet :: tagset
  ld_includeRawExif :: bool

definition createExifLoader :: "ExifLoaderOptions \<Rightarrow> loader" where
  "createExifLoader options =
     (let imagesDir =
            orDefault \<lparr>dir_pattern = Single ''**/*'', dir_base = Some ''src/content/images''\<rparr>
              (opt_imagesDir options);
          presets = orDefault [] (opt_presets options);
          tags = orDefault [] (opt_tags options);
          excludeTags = orDefault [] (opt_excludeTags options);
          extractAll = orDefault False (opt_extractAll options);
          includeRawExif = orDefault False (opt_includeRawExif options)
      in \<lparr>ld_imagesDir = imagesDir,
          ld_tagsToExtract =
            (if extractAll then None else Some (determineTagsToExtract presets tags)),
          ld_excludeTagsSet = Set_of (FILESYSTEM_LEAKY_TAGS @ excludeTags),
          ld_includeRawExif = includeRawExif\<rparr>)"

text \<open>\<^verbatim>\<open>createExifLoader()\<close> and \<^verbatim>\<open>createExifLoader({})\<close>: no option given.\<close>

definition no_options :: ExifLoaderOptions where
  "no_options =
     \<lparr>opt_imagesDir = None, opt_presets = None, opt_tags = None, opt_excludeTags = None,
      opt_extractAll = None, opt_includeRawExif = None\<rparr>"

section \<open>Values on which the serializer's unguarded coercions succeed\<close>

text \<open>
  No object in the value has a \<^verbatim>\<open>valueOf\<close> method that throws or a property read
  that throws, \<^verbatim>\<open>String(value)\<close> is defined for every object in it, and no array in
  it contains itself.
\<close>

fun coercible :: "jsval \<Rightarrow> bool" where
  "coercible (JArr vs) = (\<forall>v \<in> set vs. coercible v)"
| "coercible (JObj toDate valueOf ps str) =
     ((case valueOf of Some (VThrows msg) \<Rightarrow> False | _ \<Rightarrow> True) \<and> str \<noteq> None)"
| "coercible JCycle = False"
| "coercible (JAcc toDateRead valueOfRead numRead denRead str) =
     ((case toDateRead of Inl msg \<Rightarrow> False | Inr toDate \<Rightarrow> True)
      \<and> (case valueOfRead of
            Inl msg \<Rightarrow> False
          | Inr valueOf \<Rightarrow> (case valueOf of Some (VThrows msg) \<Rightarrow> False | _ \<Rightarrow> True))
      \<and> (case numRead of Inl msg \<Rightarrow> False | Inr v \<Rightarrow> True)
      \<and> (case denRead of Inl msg \<Rightarrow> False | Inr v \<Rightarrow> True)
      \<and> str \<noteq> None)"
| "coercible v = True"

section \<open>Strings and paths\<close>

text \<open>\<^verbatim>\<open>s.startsWith(p)\<close>\<close>

definition startsWith :: "string \<Rightarrow> string \<Rightarrow> bool" where
  "startsWith s p = (take (length p) s = p)"

text \<open>
  \<^verbatim>\<open>s.replace(pat, rep)\<close> with a string pattern: only the first occurrence is replaced;
  the empty pattern occurs at the start.
\<close>

fun replace_first :: "string \<Rightarrow> string \<Rightarrow> string \<Rightarrow> string" where
  "replace_first pat rep [] = (if pat = [] then rep else [])"
| "replace_first pat rep (c # cs) =
     (if take (length pat) (c # cs) = pat then rep @ drop (length pat) (c # cs)
      else c # replace_first pat rep cs)"

text \<open>\<^verbatim>\<open>s.replace(/\\/g, "/")\<close>: every backslash becomes a slash.\<close>

definition slashes :: "string \<Rightarrow> string" where
  "slashes s = map (\<lambda>c. if c = CHR 0x5C then CHR ''/'' else c) s"

text \<open>
  Node's \<^verbatim>\<open>path\<close> module in its POSIX flavour, on which the loader runs its path
  arithmetic: the separator is the slash, a backslash is an ordinary character.
  \<open>split_slash\<close> cuts a path at every slash, \<open>join_slash\<close> is its inverse.
\<close>

fun split_slash :: "string \<Rightarrow> string list" where
  "split_slash [] = [[]]"
| "split_slash (c # cs) =
     (if c = CHR ''/'' then [] # split_slash cs
      else (case split_slash cs of [] \<Rightarrow> [[c]] | w # ws \<Rightarrow> (c # w) # ws))"

fun join_slash :: "string list \<Rightarrow> string" where
  "join_slash [] = []"
| "join_slash [p] = p"
| "join_slash (p # ps) = p @ CHR ''/'' # join_slash ps"

text \<open>
  Normalization of the segments of an absolute path: empty and \<^verbatim>\<open>.\<close> segments are
  dropped, \<^verbatim>\<open>..\<close> removes the segment before it and is dropped at the root. The
  first argument holds the segments kept so far, last one first.
\<close>

fun normalizeParts :: "string list \<Rightarrow> string list \<Rightarrow> string list" where
  "normalizeParts acc [] = rev acc"
| "normalizeParts acc (p # ps) =
     (if p = [] \<or> p = ''.'' then normalizeParts acc ps
      else if p = ''..'' then normalizeParts (case acc of [] \<Rightarrow> [] | q # acc' \<Rightarrow> acc') ps
      else normalizeParts (p # acc) ps)"

text \<open>
  \<^verbatim>\<open>path.resolve(...args)\<close>: the arguments are taken from the right until one is
  absolute, empty ones are skipped, and the working directory (an absolute path) is
  used when none is absolute. \<open>resolveRaw\<close> takes the arguments last one first.
\<close>

fun resolveRaw :: "string \<Rightarrow> string list \<Rightarrow> string" where
  "resolveRaw cwd [] = cwd"
| "resolveRaw cwd (p # ps) =
     (if p = [] then resolveRaw cwd ps
      else if hd p = CHR ''/'' then p
      else resolveRaw cwd ps @ CHR ''/'' # p)"

definition resolvedParts :: "string \<Rightarrow> string list \<Rightarrow> string list" where
  "resolvedParts cwd args = normalizeParts [] (split_slash (resolveRaw cwd (rev args)))"

definition pathResolve :: "string \<Rightarrow> string list \<Rightarrow> string" where
  "pathResolve cwd args = CHR ''/'' # join_slash (resolvedParts cwd args)"

text \<open>
  \<^verbatim>\<open>path.relative(from, to)\<close>: both paths are resolved, their common leading segments
  are dropped, and every remaining segment of \<open>from\<close> becomes \<^verbatim>\<open>..\<close>.
\<close>

fun dropCommon :: "string list \<Rightarrow> string list \<Rightarrow> string list \<times> string list" where
  "dropCommon (x # xs) (y # ys) = (if x = y then dropCommon xs ys else (x # xs, y # ys))"
| "dropCommon xs ys = (xs, ys)"

definition relative :: "string \<Rightarrow> string \<Rightarrow> string \<Rightarrow> string" where
  "relative cwd from to =
     (case dropCommon (resolvedParts cwd [from]) (resolvedParts cwd [to]) of
        (up, down) \<Rightarrow> join_slash (replicate (length up) ''..'' @ down))"

text \<open>\<^verbatim>\<open>path.basename(p)\<close>: the last non-empty segment, the empty string if there is none.\<close>

definition basename :: "string \<Rightarrow> string" where
  "basename p =
     (case filter (\<lambda>seg. seg \<noteq> []) (split_slash p) of [] \<Rightarrow> [] | segs \<Rightarrow> last segs)"

text \<open>
  \<^verbatim>\<open>path.extname(p)\<close>: the basename from its last dot on; empty when the basename has
  no dot, when its only dot is its first character, and for \<^verbatim>\<open>..\<close>.
\<close>

definition extname :: "string \<Rightarrow> string" where
  "extname p =
     (let b = basename p;
          ext = rev (takeWhile (\<lambda>c. c \<noteq> CHR ''.'') (rev b));
          stem = rev (drop 1 (dropWhile (\<lambda>c. c \<noteq> CHR ''.'') (rev b)))
      in if CHR ''.'' \<notin> set b \<or> stem = [] \<or> b = ''..'' then [] else CHR ''.'' # ext)"

section \<open>The host: record store, logger, file system\<close>

record entry =
  ent_id :: string
  ent_data :: image_data
  ent_digest :: string
  ent_filePath :: "string option"

text \<open>
  Modelled from the spec: the host's record store, which the loader receives as the
  parameter \<^verbatim>\<open>store\<close>: "a record store keyed by string id, supporting get-by-id,
  upsert-with-digest, and delete-by-id". \<open>store_set\<close> returns whether it wrote; it does
  not when the stored record has the same digest.
\<close>

type_synonym store = "string \<rightharpoonup> entry"

definition store_get :: "store \<Rightarrow> string \<Rightarrow> entry option" where
  "store_get st i = st i"

definition store_set :: "store \<Rightarrow> entry \<Rightarrow> bool \<times> store" where
  "store_set st e =
     (case st (ent_id e) of
        None \<Rightarrow> (True, st(ent_id e \<mapsto> e))
      | Some old \<Rightarrow>
          if ent_digest old = ent_digest e then (False, st) else (True, st(ent_id e \<mapsto> e)))"

definition store_delete :: "store \<Rightarrow> string \<Rightarrow> store" where
  "store_delete st i = st(i := None)"

text \<open>The messages the loader hands to the host's logger, by template.\<close>

datatype level = LInfo | LWarn | LError | LDebug

datatype message =
    Loading "string list" string
  | NoImagesFound string "string list"
  | ErrorGlobbing string
  | FileUpdated string
  | FileRemoved string
  | ProcessingFile string
  | ExifReadFailed string string
  | Processed string
  | ProcessedSize string "field option" "field option"
  | SkippedNoChanges string
  | FailedToProcess string string

text \<open>\<^verbatim>\<open>error.message\<close>\<close>

fun message_of :: "error \<Rightarrow> string" where
  "message_of (ValueOfThrew msg) = msg"
| "message_of TypeError = ''Cannot convert object to primitive value''"
| "message_of (JsError msg) = msg"
| "message_of (AccessorThrew msg) = msg"
| "message_of RangeError = ''Maximum call stack size exceeded''"

record world =
  w_store :: store
  w_log :: "(level \<times> message) list"

definition logger :: "level \<Rightarrow> message \<Rightarrow> world \<Rightarrow> world" where
  "logger lv m w = w\<lparr>w_log := w_log w @ [(lv, m)]\<rparr>"

text \<open>
  \<^verbatim>\<open>stat(filePath)\<close> gives the modification time, here already as the text
  \<^verbatim>\<open>stats.mtime.toISOString()\<close>, and the size in bytes.
\<close>

record stats =
  st_mtime :: string
  st_size :: jsnum

text \<open>
  What the loader gets from outside: the working directory, \<^verbatim>\<open>stat\<close> and
  \<^verbatim>\<open>exiftool.read\<close> (each fails with a message or returns), the host's
  \<^verbatim>\<open>generateDigest\<close>, the matcher \<^verbatim>\<open>picomatch(patterns)\<close>, and the directory scan
  \<^verbatim>\<open>tinyglob(patterns, {cwd})\<close>.
\<close>

record env =
  env_cwd :: string
  env_stat :: "string \<Rightarrow> string + stats"
  env_read :: "string \<Rightarrow> string + tags"
  env_digest :: "image_data \<Rightarrow> string"
  env_picomatch :: "string list \<Rightarrow> string \<Rightarrow> bool"
  env_glob :: "string list \<Rightarrow> string \<Rightarrow> string + string list"

section \<open>loader.ts: processing a file\<close>

text \<open>
  The file \<^verbatim>\<open>loader.ts\<close> comes in two listings. In the first, a record's identifier
  keeps the file's extension; its functions are \<open>processImage\<close>, \<open>load\<close>,
  \<open>onAddOrChange\<close> and \<open>onUnlink\<close>. In the second the extension is stripped and the
  path is taken relative to the images directory; these are \<open>processImage2\<close>,
  \<open>load2\<close>, \<open>onAddOrChange2\<close> and \<open>onUnlink2\<close>. \<^verbatim>\<open>createExifLoader\<close>'s
  computation of the configuration is the same in both.

  \<^verbatim>\<open>processImage\<close> returns nothing; the model returns, beside the new state, which of
  its exits was taken: the early \<^verbatim>\<open>return\<close> for an unchanged file, the end of the
  \<^verbatim>\<open>try\<close> block after \<^verbatim>\<open>store.set\<close> (with its result), or the \<^verbatim>\<open>catch\<close>.
\<close>

datatype outcome = Skipped | Stored bool | Failed

text \<open>A string that may be \<^verbatim>\<open>undefined\<close>, used as a condition.\<close>

definition truthy :: "string option \<Rightarrow> bool" where
  "truthy s = (case s of None \<Rightarrow> False | Some t \<Rightarrow> t \<noteq> [])"

definition processImage ::
  "env \<Rightarrow> string \<Rightarrow> world \<Rightarrow> string \<Rightarrow> tagset option \<Rightarrow> tagset \<Rightarrow> bool \<Rightarrow> outcome \<times> world"
where
  "processImage env filePath w rootPath tagsToExtract excludeTags includeRawExif =
     (let srcRoot = pathResolve (env_cwd env) [rootPath, ''src''];
          relativePath = slashes (relative (env_cwd env) srcRoot filePath);
          fileNameOnly = basename filePath;
          entryId = relativePath
      in case env_stat env filePath of
           Inl msg \<Rightarrow> (Failed, logger LError (FailedToProcess filePath msg) w)
         | Inr stats \<Rightarrow>
             let mtime = st_mtime stats;
                 existingEntry = store_get (w_store w) entryId
             in if (case existingEntry of
                      None \<Rightarrow> False
                    | Some e \<Rightarrow> ent_data e ''mtime'' = Some (Val (SStr mtime)))
                then (Skipped, w)
                else
                  let (tags, w1) =
                        (case env_read env filePath of
                           Inl msg \<Rightarrow> ([], logger LWarn (ExifReadFailed entryId msg) w)
                         | Inr t \<Rightarrow> (t, w))
                  in case buildImageData tags fileNameOnly mtime (st_size stats)
                            tagsToExtract excludeTags includeRawExif of
                       Inl e \<Rightarrow>
                         (Failed, logger LError (FailedToProcess filePath (message_of e)) w1)
                     | Inr imageData \<Rightarrow>
                         let digest = env_digest env imageData;
                             (success, st) =
                               store_set (w_store w1)
                                 \<lparr>ent_id = entryId, ent_data = imageData, ent_digest = digest,
                                  ent_filePath =
                                    Some (relative (env_cwd env) rootPath filePath)\<rparr>;
                             w2 = w1\<lparr>w_store := st\<rparr>
                         in if success then (Stored True, logger LInfo (Processed entryId) w2)
                            else (Stored False, logger LDebug (SkippedNoChanges entryId) w2))"

definition processImage2 ::
  "env \<Rightarrow> string \<Rightarrow> world \<Rightarrow> string \<Rightarrow> tagset option \<Rightarrow> tagset \<Rightarrow> bool \<Rightarrow> string option
   \<Rightarrow> outcome \<times> world"
where
  "processImage2 env filePath w rootPath tagsToExtract excludeTags includeRawExif basePath =
     (let relFromBase =
            (case basePath of
               Some b \<Rightarrow>
                 if b \<noteq> [] then slashes (relative (env_cwd env) b filePath)
                 else slashes (relative (env_cwd env) rootPath filePath)
             | None \<Rightarrow> slashes (relative (env_cwd env) rootPath filePath));
          srcRoot = pathResolve (env_cwd env) [rootPath, ''src''];
          insideSrc = (startsWith filePath (srcRoot @ ''/'') \<or> filePath = srcRoot);
          srcPath = (if insideSrc then slashes (relative (env_cwd env) srcRoot filePath) else []);
          fileNameOnly = basename relFromBase;
          entryId = replace_first (extname relFromBase) [] relFromBase
      in case env_stat env filePath of
           Inl msg \<Rightarrow> (Failed, logger LError (FailedToProcess filePath msg) w)
         | Inr stats \<Rightarrow>
             let mtime = st_mtime stats;
                 existingEntry = store_get (w_store w) entryId
             in if (case existingEntry of
                      None \<Rightarrow> False
                    | Some e \<Rightarrow> ent_data e ''mtime'' = Some (Val (SStr mtime)))
                then (Skipped, w)
                else
                  let w0 = logger LInfo (ProcessingFile relFromBase) w;
                      (tags, w1) =
                        (case env_read env filePath of
                           Inl msg \<Rightarrow> ([], logger LWarn (ExifReadFailed relFromBase msg) w0)
                         | Inr t \<Rightarrow> (t, w0))
                  in case buildImageData tags fileNameOnly mtime (st_size stats)
                            tagsToExtract excludeTags includeRawExif of
                       Inl e \<Rightarrow>
                         (Failed, logger LError (FailedToProcess filePath (message_of e)) w1)
                     | Inr built \<Rightarrow>
                         let imageData = built(''srcPath'' \<mapsto> Val (SStr srcPath));
                             digest = env_digest env imageData;
                             (success, st) =
                               store_set (w_store w1)
                                 \<lparr>ent_id = entryId, ent_data = imageData, ent_digest = digest,
                                  ent_filePath =
                                    Some (relative (env_cwd env) rootPath filePath)\<rparr>;
                             w2 = w1\<lparr>w_store := st\<rparr>
                         in if success
                            then (Stored True,
                                  logger LInfo
                                    (ProcessedSize relFromBase (imageData ''width'')
                                       (imageData ''height'')) w2)
                            else (Stored False,
                                  logger LDebug (SkippedNoChanges relFromBase) w2))"

section \<open>loader.ts: the scan and the watcher's handlers\<close>

definition patterns_of :: "ExifDirectoryOptions \<Rightarrow> string list" where
  "patterns_of dirCfg = (case dir_pattern dirCfg of Single p \<Rightarrow> [p] | Several ps \<Rightarrow> ps)"

definition basePath_of :: "env \<Rightarrow> string \<Rightarrow> ExifDirectoryOptions \<Rightarrow> string" where
  "basePath_of env rootPath dirCfg =
     pathResolve (env_cwd env)
       [rootPath,
        (if truthy (dir_base dirCfg) then orDefault [] (dir_base dirCfg)
         else ''src/content/images'')]"

definition matches :: "env \<Rightarrow> string \<Rightarrow> string list \<Rightarrow> string \<Rightarrow> bool" where
  "matches env basePath patterns changed =
     (let absChanged = pathResolve (env_cwd env) [changed];
          absBase = pathResolve (env_cwd env) [basePath]
      in if \<not> (absChanged = absBase \<or> startsWith absChanged (absBase @ ''/'')) then False
         else env_picomatch env patterns (relative (env_cwd env) basePath changed))"

definition load :: "env \<Rightarrow> loader \<Rightarrow> string \<Rightarrow> world \<Rightarrow> world" where
  "load env ld rootPath w =
     (let basePath = basePath_of env rootPath (ld_imagesDir ld);
          patterns = patterns_of (ld_imagesDir ld);
          w0 = logger LInfo (Loading patterns basePath) w
      in case env_glob env patterns basePath of
           Inl msg \<Rightarrow> logger LError (ErrorGlobbing msg) w0
         | Inr files \<Rightarrow>
             fold (\<lambda>rel w'.
                     snd (processImage env (pathResolve (env_cwd env) [basePath, rel]) w'
                            rootPath (ld_tagsToExtract ld) (ld_excludeTagsSet ld)
                            (ld_includeRawExif ld)))
               files
               (if files = [] then logger LError (NoImagesFound basePath patterns) w0 else w0))"

definition onAddOrChange :: "env \<Rightarrow> loader \<Rightarrow> string \<Rightarrow> string \<Rightarrow> world \<Rightarrow> world" where
  "onAddOrChange env ld rootPath filePath w =
     (let basePath = basePath_of env rootPath (ld_imagesDir ld) in
      if \<not> matches env basePath (patterns_of (ld_imagesDir ld)) filePath then w
      else snd (processImage env filePath (logger LInfo (FileUpdated filePath) w) rootPath
                  (ld_tagsToExtract ld) (ld_excludeTagsSet ld) (ld_includeRawExif ld)))"

definition onUnlink :: "env \<Rightarrow> loader \<Rightarrow> string \<Rightarrow> string \<Rightarrow> world \<Rightarrow> world" where
  "onUnlink env ld rootPath filePath w =
     (let basePath = basePath_of env rootPath (ld_imagesDir ld) in
      if \<not> matches env basePath (patterns_of (ld_imagesDir ld)) filePath then w
      else let entryId = basename filePath
           in logger LInfo (FileRemoved filePath)
                (w\<lparr>w_store := store_delete (w_store w) entryId\<rparr>))"

definition load2 :: "env \<Rightarrow> loader \<Rightarrow> string \<Rightarrow> world \<Rightarrow> world" where
  "load2 env ld rootPath w =
     (let basePath = basePath_of env rootPath (ld_imagesDir ld);
          patterns = patterns_of (ld_imagesDir ld);
          w0 = logger LInfo (Loading patterns basePath) w
      in case env_glob env patterns basePath of
           Inl msg \<Rightarrow> logger LError (ErrorGlobbing msg) w0
         | Inr files \<Rightarrow>
             fold (\<lambda>rel w'.
                     snd (processImage2 env (pathResolve (env_cwd env) [basePath, rel]) w'
                            rootPath (ld_tagsToExtract ld) (ld_excludeTagsSet ld)
                            (ld_includeRawExif ld) (Some basePath)))
               files
               (if files = [] then logger LError (NoImagesFound basePath patterns) w0 else w0))"

definition onAddOrChange2 :: "env \<Rightarrow> loader \<Rightarrow> string \<Rightarrow> string \<Rightarrow> world \<Rightarrow> world" where
  "onAddOrChange2 env ld rootPath filePath w =
     (let basePath = basePath_of env rootPath (ld_imagesDir ld) in
      if \<not> matches env basePath (patterns_of (ld_imagesDir ld)) filePath then w
      else snd (processImage2 env filePath (logger LInfo (FileUpdated filePath) w) rootPath
                  (ld_tagsToExtract ld) (ld_excludeTagsSet ld) (ld_includeRawExif ld)
                  (Some basePath)))"

definition onUnlink2 :: "env \<Rightarrow> loader \<Rightarrow> string \<Rightarrow> string \<Rightarrow> world \<Rightarrow> world" where
  "onUnlink2 env ld rootPath filePath w =
     (let basePath = basePath_of env rootPath (ld_imagesDir ld) in
      if \<not> matches env basePath (patterns_of (ld_imagesDir ld)) filePath then w
      else let rel = relative (env_cwd env) basePath filePath;
               entryId = replace_first (extname rel) [] rel
           in logger LInfo (FileRemoved filePath)
                (w\<lparr>w_store := store_delete (w_store w) entryId\<rparr>))"

section \<open>importer.ts\<close>

text \<open>
  The importer comes in two listings as well. \<open>imageImporter\<close> is the one of the file
  \<^verbatim>\<open>importer.ts\<close>, which reads \<^verbatim>\<open>entry.data.srcPath\<close>; \<open>imageImporter2\<close> is the
  other one, which reads \<^verbatim>\<open>entry.filePath\<close> and accepts a single entry or
  \<^verbatim>\<open>undefined\<close> too. A collection entry as the host returns it:
\<close>

record collection_entry =
  ce_id :: string
  ce_collection :: string
  ce_data :: image_data
  ce_filePath :: "string option"

text \<open>An imported image's metadata, named by the module that provides it.\<close>

type_synonym image = string

text \<open>
  \<^verbatim>\<open>import.meta.glob("/src/**/*", { eager: false })\<close>: for each path under
  \<^verbatim>\<open>/src\<close> a function that imports the module. Calling it fails, or gives a module
  whose \<^verbatim>\<open>default\<close> export may be missing.
\<close>

datatype import_outcome = ImportFails | Module "image option"

type_synonym files = "string \<rightharpoonup> import_outcome"

record imported =
  im_id :: string
  im_collection :: string
  im_data :: image_data
  im_filePath :: "string option"
  im_defaultImport :: "image option"

text \<open>The calls of \<^verbatim>\<open>console.warn\<close>, by template.\<close>

datatype warning =
    EntriesMissing nat
  | EntryMissingSrcPath string
  | EntriesOutsideSrc nat
  | EntryMissingFilePath string
  | FailedToImport string
  | NoImporterFound string

datatype importer_input = NoEntry | OneEntry collection_entry | Entries "collection_entry list"

datatype importer_output = Null | One imported | Many "imported list"

definition only_under_src :: error where
  "only_under_src = JsError ''astro-image-exif-loader: The importer only works for images under /src.''"

text \<open>
  A property of the record, \<^verbatim>\<open>entry.data?.srcPath\<close>, used as a condition: \<^verbatim>\<open>undefined\<close>
  (the property is absent), \<^verbatim>\<open>null\<close>, the empty string, zero, NaN and \<^verbatim>\<open>false\<close> are
  falsy, every other value is truthy. The parameter's type gives \<^verbatim>\<open>data\<close> the type
  \<^verbatim>\<open>any\<close>, so the property need not be a string.
\<close>

fun truthy_field :: "field option \<Rightarrow> bool" where
  "truthy_field None = False"
| "truthy_field (Some (Val SNull)) = False"
| "truthy_field (Some (Val (SStr s))) = (s \<noteq> [])"
| "truthy_field (Some (Val (SNum n))) = (n \<noteq> Fin 0 \<and> n \<noteq> NaN)"
| "truthy_field (Some (Val (SBool b))) = b"
| "truthy_field (Some (Val (SArr xs))) = True"
| "truthy_field (Some (Raw r)) = True"

text \<open>The lookup of the import function and its call, shared by both listings.\<close>

definition importModule :: "files \<Rightarrow> string \<Rightarrow> warning list \<times> image option" where
  "importModule filesMap imagePath =
     (case filesMap imagePath of
        Some importer \<Rightarrow>
          (case importer of
             Module d \<Rightarrow> ([], d)
           | ImportFails \<Rightarrow> ([FailedToImport imagePath], None))
      | None \<Rightarrow> ([NoImporterFound imagePath], None))"

text \<open>
  The callback of \<^verbatim>\<open>entries.map\<close> in \<^verbatim>\<open>importer.ts\<close>; \<^verbatim>\<open>{ ...entry, defaultImport }\<close>.
  For a truthy \<^verbatim>\<open>srcPath\<close> that is not a string, \<^verbatim>\<open>relPath.startsWith\<close> is not a
  function and the call throws a TypeError.
\<close>

definition importEntry :: "files \<Rightarrow> collection_entry \<Rightarrow> error + warning list \<times> imported" where
  "importEntry filesMap entry =
     (let relPath = ce_data entry ''srcPath'';
          result = (\<lambda>d. \<lparr>im_id = ce_id entry, im_collection = ce_collection entry,
                          im_data = ce_data entry, im_filePath = ce_filePath entry,
                          im_defaultImport = d\<rparr>)
      in if \<not> truthy_field relPath then Inr ([EntryMissingSrcPath (ce_id entry)], result None)
         else
           (case relPath of
              Some (Val (SStr p)) \<Rightarrow>
                let imagePath =
                      (if startsWith p ''/'' then CHR ''/'' # drop 1 p else ''/src/'' @ p)
                in (case importModule filesMap imagePath of (ws, d) \<Rightarrow> Inr (ws, result d))
            | _ \<Rightarrow> Inl TypeError))"

text \<open>
  The warnings of the entries are listed in the order of the entries; the runtime may
  interleave those issued after an \<^verbatim>\<open>await\<close>. A callback that throws rejects its
  promise, \<^verbatim>\<open>Promise.all\<close> rejects with it, and so does the importer.
\<close>

definition imageImporter ::
  "files \<Rightarrow> collection_entry list \<Rightarrow> error + warning list \<times> imported list"
where
  "imageImporter filesMap entries =
     (let missing = filter (\<lambda>e. \<not> truthy_field (ce_data e ''srcPath'')) entries in
      if length missing = length entries then Inl only_under_src
      else
        let warned = (if 0 < length missing then [EntriesMissing (length missing)] else [])
        in case sequence (map (importEntry filesMap) entries) of
             Inl err \<Rightarrow> Inl err
           | Inr results \<Rightarrow> Inr (warned @ concat (map fst results), map snd results))"

text \<open>\<^verbatim>\<open>insideSrc\<close> as both the filter and the callback of the second listing compute it.\<close>

definition insideSrc :: "string \<Rightarrow> string \<Rightarrow> bool" where
  "insideSrc cwd filePath =
     (let rootPath = cwd;
          srcRoot = pathResolve cwd [rootPath, ''src''];
          fullPath = pathResolve cwd [rootPath, filePath]
      in startsWith fullPath (srcRoot @ ''/'') \<or> fullPath = srcRoot)"

definition importEntry2 :: "string \<Rightarrow> files \<Rightarrow> collection_entry \<Rightarrow> warning list \<times> imported" where
  "importEntry2 cwd filesMap entry =
     (let result = (\<lambda>d. \<lparr>im_id = ce_id entry, im_collection = ce_collection entry,
                          im_data = ce_data entry, im_filePath = None,
                          im_defaultImport = d\<rparr>)
      in if \<not> truthy (ce_filePath entry)
         then ([EntryMissingFilePath (ce_id entry)], result None)
         else
           let filePath = orDefault [] (ce_filePath entry) in
           if \<not> insideSrc cwd filePath then ([], result None)
           else
             let srcRoot = pathResolve cwd [cwd, ''src''];
                 fullPath = pathResolve cwd [cwd, filePath];
                 srcRelativePath = slashes (relative cwd srcRoot fullPath);
                 imagePath = ''/src/'' @ srcRelativePath
             in case importModule filesMap imagePath of (ws, d) \<Rightarrow> (ws, result d))"

definition imageImporter2 ::
  "string \<Rightarrow> files \<Rightarrow> importer_input \<Rightarrow> error + warning list \<times> importer_output"
where
  "imageImporter2 cwd filesMap entriesOrEntry =
     (case entriesOrEntry of
        NoEntry \<Rightarrow> Inr ([], Null)
      | _ \<Rightarrow>
          let isArray = (case entriesOrEntry of Entries es \<Rightarrow> True | _ \<Rightarrow> False);
              entries = (case entriesOrEntry of Entries es \<Rightarrow> es | OneEntry e \<Rightarrow> [e] | NoEntry \<Rightarrow> []);
              outsideSrc =
                filter (\<lambda>entry.
                          if \<not> truthy (ce_filePath entry) then True
                          else \<not> insideSrc cwd (orDefault [] (ce_filePath entry)))
                  entries
          in if length outsideSrc = length entries then Inl only_under_src
             else
               let warned =
                     (if 0 < length outsideSrc then [EntriesOutsideSrc (length outsideSrc)]
                      else []);
                   results = map (importEntry2 cwd filesMap) entries;
                   warnings = warned @ concat (map fst results)
               in Inr (warnings,
                       if isArray then Many (map snd results)
                       else (case results of [] \<Rightarrow> Null | r # rs \<Rightarrow> One (snd r))))"

text \<open>
  A record has an importable source path: for \<open>imageImporter\<close> a \<^verbatim>\<open>data.srcPath\<close>
  that is a non-empty string, for \<open>imageImporter2\<close> a non-empty \<^verbatim>\<open>filePath\<close> that
  resolves into the project's \<^verbatim>\<open>src\<close> directory.
\<close>

definition importable :: "collection_entry \<Rightarrow> bool" where
  "importable e =
     (case ce_data e ''srcPath'' of Some (Val (SStr p)) \<Rightarrow> p \<noteq> [] | _ \<Rightarrow> False)"

text \<open>
  The record's \<^verbatim>\<open>data.srcPath\<close> is a string or absent, as the collection's schema
  declares it (\<^verbatim>\<open>srcPath: zod.string().optional()\<close>) and as \<open>processImage2\<close>
  writes it.
\<close>

definition srcPath_typed :: "collection_entry \<Rightarrow> bool" where
  "srcPath_typed e =
     (case ce_data e ''srcPath'' of None \<Rightarrow> True | Some (Val (SStr p)) \<Rightarrow> True | _ \<Rightarrow> False)"

definition importable2 :: "string \<Rightarrow> collection_entry \<Rightarrow> bool" where
  "importable2 cwd e =
     (truthy (ce_filePath e) \<and> insideSrc cwd (orDefault [] (ce_filePath e)))"

text \<open>
  The identifiers. \<open>storedId\<close> is the \<^verbatim>\<open>id\<close> under which \<open>processImage\<close> calls
  \<^verbatim>\<open>store.get\<close> and \<^verbatim>\<open>store.set\<close>, \<open>removedId\<close> the \<^verbatim>\<open>id\<close> that \<open>onUnlink\<close>
  passes to \<^verbatim>\<open>store.delete\<close>; \<open>storedId2\<close> and \<open>removedId2\<close> are those of
  \<open>processImage2\<close> and \<open>onUnlink2\<close>.
\<close>

definition storedId :: "string \<Rightarrow> string \<Rightarrow> string \<Rightarrow> string" where
  "storedId cwd rootPath filePath =
     slashes (relative cwd (pathResolve cwd [rootPath, ''src'']) filePath)"

definition removedId :: "string \<Rightarrow> string" where
  "removedId filePath = basename filePath"

definition storedId2 :: "string \<Rightarrow> string \<Rightarrow> string option \<Rightarrow> string \<Rightarrow> string" where
  "storedId2 cwd rootPath basePath filePath =
     (let relFromBase =
            (case basePath of
               Some b \<Rightarrow>
                 if b \<noteq> [] then slashes (relative cwd b filePath)
                 else slashes (relative cwd rootPath filePath)
             | None \<Rightarrow> slashes (relative cwd rootPath filePath))
      in replace_first (extname relFromBase) [] relFromBase)"

definition removedId2 :: "string \<Rightarrow> string \<Rightarrow> string \<Rightarrow> string" where
  "removedId2 cwd basePath filePath =
     (let rel = relative cwd basePath filePath in replace_first (extname rel) [] rel)"

text \<open>
  Two more values \<open>processImage2\<close> computes: \<^verbatim>\<open>relFromBase\<close>, whose basename is the
  record's \<^verbatim>\<open>fileName\<close>, and \<^verbatim>\<open>srcPath\<close>, which it writes into the record.
\<close>

definition relFromBase :: "string \<Rightarrow> string \<Rightarrow> string option \<Rightarrow> string \<Rightarrow> string" where
  "relFromBase cwd rootPath basePath filePath =
     (case basePath of
        Some b \<Rightarrow>
          if b \<noteq> [] then slashes (relative cwd b filePath)
          else slashes (relative cwd rootPath filePath)
      | None \<Rightarrow> slashes (relative cwd rootPath filePath))"

definition srcPath_under :: "string \<Rightarrow> string \<Rightarrow> string \<Rightarrow> string" where
  "srcPath_under cwd rootPath filePath =
     (let srcRoot = pathResolve cwd [rootPath, ''src''];
          insideSrc = (startsWith filePath (srcRoot @ ''/'') \<or> filePath = srcRoot)
      in if insideSrc then slashes (relative cwd srcRoot filePath) else [])"

text \<open>An environment for the examples: every file exists and every path matches.\<close>

definition example_env :: "string \<Rightarrow> env" where
  "example_env mtime =
     \<lparr>env_cwd = ''/proj'',
      env_stat = (\<lambda>p. Inr \<lparr>st_mtime = mtime, st_size = Fin 2048\<rparr>),
      env_read = (\<lambda>p. Inr [(''ISO'', JNum (Fin 400))]),
      env_digest = (\<lambda>d. ''digest''),
      env_picomatch = (\<lambda>patterns p. True),
      env_glob = (\<lambda>patterns d. Inr [])\<rparr>"

definition empty_world :: world where
  "empty_world = \<lparr>w_store = Map.empty, w_log = []\<rparr>"

section \<open>Lemmas about the serializer and the projection\<close>

lemma andThen_Inr: "andThen r f = Inr y \<longleftrightarrow> (\<exists>x. r = Inr x \<and> f x = Inr y)"
  by (cases r) (simp_all add: andThen_def)

lemma sequence_map_Inr:
  "(\<And>x. x \<in> set xs \<Longrightarrow> \<exists>y. f x = Inr y) \<Longrightarrow> \<exists>ys. sequence (map f xs) = Inr ys"
proof (induction xs)
  case Nil
  show ?case by simp
next
  case (Cons x xs)
  from Cons.prems obtain y where y: "f x = Inr y" by auto
  from Cons obtain ys where "sequence (map f xs) = Inr ys" by auto
  with y show ?case by simp
qed

lemma toSerializable_returns: "coercible v \<Longrightarrow> \<exists>r. toSerializable v = Inr r"
proof (induction v rule: toSerializable.induct)
  case (7 vs)
  have "\<exists>ys. sequence (map toSerializable vs) = Inr ys"
  proof (rule sequence_map_Inr)
    fix x assume "x \<in> set vs"
    with 7 show "\<exists>y. toSerializable x = Inr y" by simp
  qed
  then show ?case by auto
next
  case (8 toDate valueOf ps str)
  then show ?case
    by (auto simp: String_of_def split: option.splits valueOf_result.splits jsval.splits)
next
  case (10 toDateRead valueOfRead numRead denRead str)
  then show ?case
    by (auto simp: String_of_def
          split: sum.splits option.splits valueOf_result.splits jsval.splits)
qed (simp_all split: option.splits)

lemma extract_all_excluded:
  "extract_all ex ts d0 = Inr d \<Longrightarrow> has ex T \<Longrightarrow> d T = d0 T"
  by (induction ex ts d0 rule: extract_all.induct) (auto simp: andThen_Inr split: if_splits)

lemma extract_selected_excluded:
  "extract_selected ex ts sel d0 = Inr d \<Longrightarrow> has ex T \<Longrightarrow> d T = d0 T"
  by (induction ex ts sel d0 rule: extract_selected.induct)
     (auto simp: andThen_Inr split: if_splits option.splits)

lemma extract_all_returns:
  "\<forall>v \<in> snd ` set ts. coercible v \<Longrightarrow> \<exists>d. extract_all ex ts d0 = Inr d"
proof (induction ts arbitrary: d0)
  case Nil
  then show ?case by simp
next
  case (Cons p ts)
  obtain k v where p: "p = (k, v)" by (cases p)
  with Cons.prems have "coercible v" by simp
  then obtain s where s: "toSerializable v = Inr s" using toSerializable_returns by blast
  from Cons.prems have rest: "\<forall>v \<in> snd ` set ts. coercible v" by simp
  from Cons.IH[OF rest] p s show ?case by (simp add: andThen_def)
qed

lemma extract_selected_returns:
  "\<forall>v \<in> snd ` set ts. coercible v \<Longrightarrow> \<exists>d. extract_selected ex ts sel d0 = Inr d"
proof (induction sel arbitrary: d0)
  case Nil
  then show ?case by simp
next
  case (Cons k sel)
  show ?case
  proof (cases "map_of ts k")
    case None
    with Cons show ?thesis by simp
  next
    case (Some v)
    then have "(k, v) \<in> set ts" by (rule map_of_SomeD)
    with Cons.prems have "coercible v" by force
    then obtain s where s: "toSerializable v = Inr s" using toSerializable_returns by blast
    with Some Cons show ?thesis by (simp add: andThen_def)
  qed
qed

lemma collect_raw_dom:
  "collect_raw ts r0 = Inr r \<Longrightarrow>
   dom r = dom r0 \<union> {k. \<exists>v. (k, v) \<in> set ts \<and> v \<noteq> JNull \<and> v \<noteq> JUndefined}"
proof (induction ts arbitrary: r0)
  case Nil
  then show ?case by simp
next
  case (Cons p ts)
  obtain k v where p: "p = (k, v)" by (cases p)
  show ?case
  proof (cases "v \<noteq> JNull \<and> v \<noteq> JUndefined")
    case True
    with Cons.prems p obtain s where "collect_raw ts (r0(k \<mapsto> s)) = Inr r"
      by (auto simp: andThen_Inr)
    from Cons.IH[OF this] True p show ?thesis by (auto split: if_splits)
  next
    case False
    with Cons.prems p have "collect_raw ts r0 = Inr r" by auto
    from Cons.IH[OF this] False p show ?thesis by auto
  qed
qed

lemma collect_raw_other:
  "collect_raw ts r0 = Inr r \<Longrightarrow> k \<notin> fst ` set ts \<Longrightarrow> r k = r0 k"
  by (induction ts r0 rule: collect_raw.induct) (auto simp: andThen_Inr split: if_splits)

lemma collect_raw_value:
  "collect_raw ts r0 = Inr r \<Longrightarrow> distinct (map fst ts) \<Longrightarrow> (k, v) \<in> set ts \<Longrightarrow>
   v \<noteq> JNull \<Longrightarrow> v \<noteq> JUndefined \<Longrightarrow> \<exists>s. toSerializable v = Inr s \<and> r k = Some s"
proof (induction ts arbitrary: r0)
  case Nil
  then show ?case by simp
next
  case (Cons p ts)
  obtain k' v' where p: "p = (k', v')" by (cases p)
  show ?case
  proof (cases "(k, v) = (k', v')")
    case True
    with Cons.prems p obtain s
      where s: "toSerializable v = Inr s" "collect_raw ts (r0(k \<mapsto> s)) = Inr r"
      by (auto simp: andThen_Inr)
    from Cons.prems(2) True p have "k \<notin> fst ` set ts" by auto
    from collect_raw_other[OF s(2) this] s(1) show ?thesis by simp
  next
    case False
    with Cons.prems p have in_rest: "(k, v) \<in> set ts" and d: "distinct (map fst ts)" by auto
    from Cons.prems(1) p obtain r1 where "collect_raw ts r1 = Inr r"
      by (auto simp: andThen_Inr split: if_splits)
    from Cons.IH[OF this d in_rest Cons.prems(4,5)] show ?thesis .
  qed
qed

lemma collect_raw_returns:
  "\<forall>v \<in> snd ` set ts. coercible v \<Longrightarrow> \<exists>r. collect_raw ts r0 = Inr r"
proof (induction ts arbitrary: r0)
  case Nil
  then show ?case by simp
next
  case (Cons p ts)
  obtain k v where p: "p = (k, v)" by (cases p)
  with Cons.prems have "coercible v" by simp
  then obtain s where s: "toSerializable v = Inr s" using toSerializable_returns by blast
  from Cons.prems have rest: "\<forall>v \<in> snd ` set ts. coercible v" by simp
  from Cons.IH[OF rest] p s show ?case by (simp add: andThen_def)
qed

lemma buildImageData_returns:
  assumes "\<forall>v \<in> snd ` set ts. coercible v"
  shows "\<exists>d. buildImageData ts fileName mtime fileSize sel ex raw = Inr d"
proof -
  let ?d0 = "[''fileName'' \<mapsto> Val (SStr fileName), ''mtime'' \<mapsto> Val (SStr mtime)]"
  obtain d1 where d1: "extract_all ex ts ?d0 = Inr d1"
    using extract_all_returns[OF assms] by blast
  obtain r where r: "collect_raw ts Map.empty = Inr r"
    using collect_raw_returns[OF assms] by blast
  show ?thesis
  proof (cases sel)
    case None
    with d1 r show ?thesis by (simp add: buildImageData_def andThen_def)
  next
    case (Some s)
    obtain d2 where "extract_selected ex ts s ?d0 = Inr d2"
      using extract_selected_returns[OF assms] by blast
    with Some r show ?thesis by (auto simp: buildImageData_def andThen_def Let_def)
  qed
qed

text \<open>A tag of the exclusion set is left as the projection's last steps set it.\<close>

lemma buildImageData_excluded:
  assumes "buildImageData ts fileName mtime fileSize sel ex raw = Inr d"
    and "has ex T"
    and "T \<noteq> ''fileName''" and "T \<noteq> ''mtime''" and "T \<noteq> ''rawExif''" and "T \<noteq> ''FileSize''"
  shows "d T = None"
proof -
  let ?d0 = "[''fileName'' \<mapsto> Val (SStr fileName), ''mtime'' \<mapsto> Val (SStr mtime)]"
  from assms(1) obtain d1 where
    d1: "(case sel of
           None \<Rightarrow> andThen (extract_all ex ts ?d0)
                     (\<lambda>data. Inr (data(''FileSize'' \<mapsto> Val (SNum fileSize))))
         | Some s \<Rightarrow>
             if s \<noteq> []
             then andThen (extract_selected ex ts s ?d0)
                    (\<lambda>data. if has s ''FileSize'' \<and> \<not> has ex ''FileSize''
                             then Inr (data(''FileSize'' \<mapsto> Val (SNum fileSize)))
                             else Inr data)
             else Inr ?d0) = Inr d1"
    and d: "(if raw then andThen (collect_raw ts Map.empty) (\<lambda>r. Inr (d1(''rawExif'' \<mapsto> Raw r)))
             else Inr d1) = Inr d"
    by (auto simp: buildImageData_def andThen_Inr Let_def)
  from d assms(5) have "d T = d1 T"
    by (auto simp: andThen_Inr split: if_splits)
  moreover have "d1 T = None"
  proof (cases sel)
    case None
    with d1 obtain d2 where "extract_all ex ts ?d0 = Inr d2" "d1 = d2(''FileSize'' \<mapsto> Val (SNum fileSize))"
      by (auto simp: andThen_Inr)
    with extract_all_excluded[OF this(1) assms(2)] assms(3,4,6) show ?thesis by simp
  next
    case (Some s)
    show ?thesis
    proof (cases "s = []")
      case True
      with Some d1 assms(3,4) show ?thesis by auto
    next
      case False
      with Some d1 obtain d2 where "extract_selected ex ts s ?d0 = Inr d2"
        "d1 = d2(''FileSize'' \<mapsto> Val (SNum fileSize)) \<or> d1 = d2"
        by (auto simp: andThen_Inr split: if_splits)
      with extract_selected_excluded[OF this(1) assms(2)] assms(3,4,6) show ?thesis by auto
    qed
  qed
  ultimately show ?thesis by simp
qed


lemma Set_of_set: "set (fold (\<lambda>x s. add s x) xs acc) = set acc \<union> set xs"
  by (induction xs arbitrary: acc) (auto simp: add_def)

lemma has_Set_of: "has (Set_of xs) x \<longleftrightarrow> x \<in> set xs"
  by (simp add: has_def Set_of_def Set_of_set)

lemma leaky_not_base:
  "T \<in> set FILESYSTEM_LEAKY_TAGS \<Longrightarrow>
   T \<noteq> ''fileName'' \<and> T \<noteq> ''mtime'' \<and> T \<noteq> ''rawExif'' \<and> T \<noteq> ''FileSize''"
  by (auto simp: FILESYSTEM_LEAKY_TAGS_def)

section \<open>Claims about the serializer and the projection\<close>

text \<open>
  C2. With \<^verbatim>\<open>tagsToExtract === null\<close> the projection returns for every raw record
  whose values the serializer can coerce, and whenever it returns, the record's
  \<^verbatim>\<open>FileSize\<close> is the size given by \<^verbatim>\<open>stat\<close>, whatever \<^verbatim>\<open>FileSize\<close> the raw
  record holds.
\<close>

theorem all_mode_FileSize_from_stat:
  "((\<forall>v \<in> snd ` set tags. coercible v) \<longrightarrow>
      (\<exists>data. buildImageData tags fileName mtime fileSize None excludeTags includeRawExif = Inr data))
   \<and> (\<forall>data. buildImageData tags fileName mtime fileSize None excludeTags includeRawExif = Inr data
         \<longrightarrow> data ''FileSize'' = Some (Val (SNum fileSize)))"
proof (intro conjI impI allI)
  assume "\<forall>v \<in> snd ` set tags. coercible v"
  then show "\<exists>data. buildImageData tags fileName mtime fileSize None excludeTags includeRawExif = Inr data"
    by (rule buildImageData_returns)
next
  fix data
  assume "buildImageData tags fileName mtime fileSize None excludeTags includeRawExif = Inr data"
  then show "data ''FileSize'' = Some (Val (SNum fileSize))"
    by (auto simp: buildImageData_def andThen_Inr Let_def split: if_splits)
qed

theorem all_mode_FileSize_from_stat_witness:
  "coercible (JStr ''2.1 MB'') \<and> coercible (JNum (Fin 400))
   \<and> (\<exists>data. buildImageData [(''FileSize'', JStr ''2.1 MB''), (''ISO'', JNum (Fin 400))]
                 ''photo.jpg'' ''2024-01-01T00:00:00.000Z'' (Fin 2048) None FILESYSTEM_LEAKY_TAGS True
               = Inr data
             \<and> data ''FileSize'' = Some (Val (SNum (Fin 2048)))
             \<and> data ''FileSize'' \<noteq> Some (Val (SStr ''2.1 MB'')))"
  using all_mode_FileSize_from_stat
    [of "[(''FileSize'', JStr ''2.1 MB''), (''ISO'', JNum (Fin 400))]"
        "''photo.jpg''" "''2024-01-01T00:00:00.000Z''" "Fin 2048" FILESYSTEM_LEAKY_TAGS True]
  by auto

text \<open>
  C1. Exclusion dominance in extract-all mode, at the file-size tag: the loader is
  configured with \<^verbatim>\<open>extractAll: true\<close> and \<^verbatim>\<open>excludeTags: ["FileSize"]\<close>, so
  \<^verbatim>\<open>FileSize\<close> is in the exclusion set, and yet the projected record has a
  \<^verbatim>\<open>FileSize\<close> field. The branch for an explicit selection tests
  \<^verbatim>\<open>!excludeTags.has("FileSize")\<close> before it sets the field; the extract-all branch
  sets it without the test. For every other excluded tag the invariant holds
  (\<open>buildImageData_excluded\<close>).
\<close>

theorem all_mode_FileSize_despite_exclusion:
  "ld_tagsToExtract
     (createExifLoader
        (no_options\<lparr>opt_excludeTags := Some [''FileSize''], opt_extractAll := Some True\<rparr>)) = None
   \<and> has (ld_excludeTagsSet
            (createExifLoader
               (no_options\<lparr>opt_excludeTags := Some [''FileSize''], opt_extractAll := Some True\<rparr>)))
         ''FileSize''
   \<and> (\<exists>data.
         buildImageData [(''ISO'', JNum (Fin 400))] ''photo.jpg'' ''2024-01-01T00:00:00.000Z''
           (Fin 2048) None
           (ld_excludeTagsSet
              (createExifLoader
                 (no_options\<lparr>opt_excludeTags := Some [''FileSize''], opt_extractAll := Some True\<rparr>)))
           False = Inr data
         \<and> data ''FileSize'' = Some (Val (SNum (Fin 2048))))"
  by (simp add: createExifLoader_def no_options_def orDefault_def has_Set_of
        buildImageData_def andThen_def FILESYSTEM_LEAKY_TAGS_def)

text \<open>
  C3. The serializer reads the properties \<^verbatim>\<open>num\<close> and \<^verbatim>\<open>den\<close>. An object with the
  properties \<^verbatim>\<open>numerator\<close> and \<^verbatim>\<open>denominator\<close> is not recognised as a rational: it
  falls through to \<^verbatim>\<open>String(value)\<close>.
\<close>

theorem numerator_denominator_counterexample:
  "toSerializable (plainObject [(''numerator'', JNum (Fin 1)), (''denominator'', JNum (Fin 2))])
     = Inr (SStr ''[object Object]'')
   \<and> toSerializable (plainObject [(''numerator'', JNum (Fin 1)), (''denominator'', JNum (Fin 2))])
     \<noteq> Inr (SNum (Fin (1 / 2)))"
  by (simp add: plainObject_def String_of_def)

text \<open>
  C3, as the code has it: an object without \<^verbatim>\<open>toDate\<close> method whose \<^verbatim>\<open>valueOf\<close>
  gives neither number nor string, and whose properties \<^verbatim>\<open>num\<close> and \<^verbatim>\<open>den\<close> are
  numbers, serializes to \<^verbatim>\<open>num / den\<close>; \<^verbatim>\<open>{num: 1, den: 2}\<close> gives 0.5.
\<close>

theorem num_den_serializes_to_quotient:
  assumes "map_of ps ''num'' = Some (JNum n)" and "map_of ps ''den'' = Some (JNum d)"
    and "valueOf = None \<or> valueOf = Some VOther"
  shows "toSerializable (JObj None valueOf ps str) = Inr (SNum (num_div n d))"
  using assms by auto

theorem num_den_serializes_to_quotient_witness:
  "toSerializable (plainObject [(''num'', JNum (Fin 1)), (''den'', JNum (Fin 2))])
     = Inr (SNum (Fin (1 / 2)))"
  using num_den_serializes_to_quotient
    [of "[(''num'', JNum (Fin 1)), (''den'', JNum (Fin 2))]" "Fin 1" "Fin 2" "Some VOther"
        "Some ''[object Object]''"]
  by (simp add: plainObject_def)

text \<open>
  C6. With \<^verbatim>\<open>includeRawExif\<close> and an empty selection, the projection of a raw record
  (an object, so its keys are distinct) returns when the serializer can coerce the
  record's values, and whenever it returns: the record's fields are \<^verbatim>\<open>fileName\<close>,
  \<^verbatim>\<open>mtime\<close> and \<^verbatim>\<open>rawExif\<close>, and \<^verbatim>\<open>rawExif\<close> holds exactly the tags whose value
  is neither \<^verbatim>\<open>null\<close> nor \<^verbatim>\<open>undefined\<close>, each serialized, whatever the exclusion
  set.
\<close>

theorem raw_only_projection:
  assumes "distinct (map fst tags)"
  shows
    "((\<forall>v \<in> snd ` set tags. coercible v) \<longrightarrow>
        (\<exists>data. buildImageData tags fileName mtime fileSize (Some []) excludeTags True = Inr data))
     \<and> (\<forall>data. buildImageData tags fileName mtime fileSize (Some []) excludeTags True = Inr data \<longrightarrow>
           data ''fileName'' = Some (Val (SStr fileName))
         \<and> data ''mtime'' = Some (Val (SStr mtime))
         \<and> dom data = {''fileName'', ''mtime'', ''rawExif''}
         \<and> (\<exists>raw. data ''rawExif'' = Some (Raw raw)
               \<and> dom raw = {k. \<exists>v. (k, v) \<in> set tags \<and> v \<noteq> JNull \<and> v \<noteq> JUndefined}
               \<and> (\<forall>k v. (k, v) \<in> set tags \<longrightarrow> v \<noteq> JNull \<longrightarrow> v \<noteq> JUndefined \<longrightarrow>
                     (\<exists>s. toSerializable v = Inr s \<and> raw k = Some s))))"
proof (intro conjI impI allI)
  assume "\<forall>v \<in> snd ` set tags. coercible v"
  then show "\<exists>data. buildImageData tags fileName mtime fileSize (Some []) excludeTags True = Inr data"
    by (rule buildImageData_returns)
next
  fix data
  assume b: "buildImageData tags fileName mtime fileSize (Some []) excludeTags True = Inr data"
  then obtain raw where raw: "collect_raw tags Map.empty = Inr raw"
    and data: "data = [''fileName'' \<mapsto> Val (SStr fileName), ''mtime'' \<mapsto> Val (SStr mtime),
                       ''rawExif'' \<mapsto> Raw raw]"
    by (auto simp: buildImageData_def andThen_Inr)
  from data show "data ''fileName'' = Some (Val (SStr fileName))" by simp
  from data show "data ''mtime'' = Some (Val (SStr mtime))" by simp
  from data show "dom data = {''fileName'', ''mtime'', ''rawExif''}" by auto
  have "dom raw = {k. \<exists>v. (k, v) \<in> set tags \<and> v \<noteq> JNull \<and> v \<noteq> JUndefined}"
    using collect_raw_dom[OF raw] by simp
  moreover have "\<forall>k v. (k, v) \<in> set tags \<longrightarrow> v \<noteq> JNull \<longrightarrow> v \<noteq> JUndefined \<longrightarrow>
                     (\<exists>s. toSerializable v = Inr s \<and> raw k = Some s)"
    using collect_raw_value[OF raw assms] by blast
  moreover from data have "data ''rawExif'' = Some (Raw raw)" by simp
  ultimately show "\<exists>raw. data ''rawExif'' = Some (Raw raw)
               \<and> dom raw = {k. \<exists>v. (k, v) \<in> set tags \<and> v \<noteq> JNull \<and> v \<noteq> JUndefined}
               \<and> (\<forall>k v. (k, v) \<in> set tags \<longrightarrow> v \<noteq> JNull \<longrightarrow> v \<noteq> JUndefined \<longrightarrow>
                     (\<exists>s. toSerializable v = Inr s \<and> raw k = Some s))"
    by blast
qed

theorem raw_only_projection_witness:
  "distinct (map fst [(''Directory'', JStr ''/tmp''), (''ISO'', JNum (Fin 400)), (''Lens'', JNull)])
   \<and> coercible (JStr ''/tmp'') \<and> coercible (JNum (Fin 400)) \<and> coercible JNull
   \<and> has FILESYSTEM_LEAKY_TAGS ''Directory''
   \<and> (\<exists>data raw.
         buildImageData [(''Directory'', JStr ''/tmp''), (''ISO'', JNum (Fin 400)), (''Lens'', JNull)]
           ''photo.jpg'' ''2024-01-01T00:00:00.000Z'' (Fin 2048) (Some []) FILESYSTEM_LEAKY_TAGS True
         = Inr data
         \<and> dom data = {''fileName'', ''mtime'', ''rawExif''}
         \<and> data ''rawExif'' = Some (Raw raw)
         \<and> raw ''Directory'' = Some (SStr ''/tmp'')
         \<and> raw ''ISO'' = Some (SNum (Fin 400))
         \<and> raw ''Lens'' = None)"
proof -
  let ?tags = "[(''Directory'', JStr ''/tmp''), (''ISO'', JNum (Fin 400)), (''Lens'', JNull)]"
  have d: "distinct (map fst ?tags)" by simp
  have c: "\<forall>v \<in> snd ` set ?tags. coercible v" by simp
  note t = raw_only_projection[OF d, of "''photo.jpg''" "''2024-01-01T00:00:00.000Z''" "Fin 2048"
      FILESYSTEM_LEAKY_TAGS]
  from t[THEN conjunct1, THEN mp, OF c] obtain data where
    b: "buildImageData ?tags ''photo.jpg'' ''2024-01-01T00:00:00.000Z'' (Fin 2048) (Some [])
          FILESYSTEM_LEAKY_TAGS True = Inr data" ..
  note p = t[THEN conjunct2, THEN spec, THEN mp, OF b]
  from p have dom: "dom data = {''fileName'', ''mtime'', ''rawExif''}" by (elim conjE)
  from p obtain raw where r: "data ''rawExif'' = Some (Raw raw)"
    and domr: "dom raw = {k. \<exists>v. (k, v) \<in> set ?tags \<and> v \<noteq> JNull \<and> v \<noteq> JUndefined}"
    and vals: "\<forall>k v. (k, v) \<in> set ?tags \<longrightarrow> v \<noteq> JNull \<longrightarrow> v \<noteq> JUndefined \<longrightarrow>
                     (\<exists>s. toSerializable v = Inr s \<and> raw k = Some s)"
    by (elim conjE exE)
  from vals[rule_format, of "''Directory''" "JStr ''/tmp''"]
  have r1: "raw ''Directory'' = Some (SStr ''/tmp'')" by simp
  from vals[rule_format, of "''ISO''" "JNum (Fin 400)"]
  have r2: "raw ''ISO'' = Some (SNum (Fin 400))" by simp
  have "''Lens'' \<notin> dom raw" unfolding domr by simp
  then have r3: "raw ''Lens'' = None" by (simp add: domIff)
  have h: "has FILESYSTEM_LEAKY_TAGS ''Directory''"
    by (simp add: has_def FILESYSTEM_LEAKY_TAGS_def)
  have cs: "coercible (JStr ''/tmp'') \<and> coercible (JNum (Fin 400)) \<and> coercible JNull" by simp
  from b dom r r1 r2 r3 have
    "\<exists>data raw.
         buildImageData ?tags ''photo.jpg'' ''2024-01-01T00:00:00.000Z'' (Fin 2048) (Some [])
           FILESYSTEM_LEAKY_TAGS True = Inr data
         \<and> dom data = {''fileName'', ''mtime'', ''rawExif''}
         \<and> data ''rawExif'' = Some (Raw raw)
         \<and> raw ''Directory'' = Some (SStr ''/tmp'')
         \<and> raw ''ISO'' = Some (SNum (Fin 400))
         \<and> raw ''Lens'' = None"
    by blast
  with d cs h show ?thesis by simp
qed

text \<open>
  C7. For every configuration, each tag of \<^verbatim>\<open>FILESYSTEM_LEAKY_TAGS\<close> is in the
  exclusion set the loader computes, and no record projected with the loader's
  selection, exclusion set and raw flag has it as a field.
\<close>

theorem leaky_tags_always_excluded:
  assumes "T \<in> set FILESYSTEM_LEAKY_TAGS"
  shows "has (ld_excludeTagsSet (createExifLoader options)) T
     \<and> (\<forall>data. buildImageData tags fileName mtime fileSize
                  (ld_tagsToExtract (createExifLoader options))
                  (ld_excludeTagsSet (createExifLoader options))
                  (ld_includeRawExif (createExifLoader options)) = Inr data
               \<longrightarrow> data T = None)"
proof -
  have h: "has (ld_excludeTagsSet (createExifLoader options)) T"
    using assms by (simp add: createExifLoader_def has_Set_of)
  from leaky_not_base[OF assms] buildImageData_excluded[OF _ h] h show ?thesis by blast
qed

theorem leaky_tags_always_excluded_witness:
  "''Directory'' \<in> set FILESYSTEM_LEAKY_TAGS
   \<and> has (ld_excludeTagsSet (createExifLoader (no_options\<lparr>opt_extractAll := Some True\<rparr>))) ''Directory''
   \<and> (\<exists>data. buildImageData [(''Directory'', JStr ''/tmp''), (''ISO'', JNum (Fin 400))]
                 ''photo.jpg'' ''2024-01-01T00:00:00.000Z'' (Fin 2048)
                 (ld_tagsToExtract (createExifLoader (no_options\<lparr>opt_extractAll := Some True\<rparr>)))
                 (ld_excludeTagsSet (createExifLoader (no_options\<lparr>opt_extractAll := Some True\<rparr>)))
                 (ld_includeRawExif (createExifLoader (no_options\<lparr>opt_extractAll := Some True\<rparr>)))
               = Inr data
             \<and> data ''Directory'' = None
             \<and> data ''ISO'' = Some (Val (SNum (Fin 400))))"
proof -
  let ?ld = "createExifLoader (no_options\<lparr>opt_extractAll := Some True\<rparr>)"
  let ?tags = "[(''Directory'', JStr ''/tmp''), (''ISO'', JNum (Fin 400))]"
  have m: "''Directory'' \<in> set FILESYSTEM_LEAKY_TAGS" by (simp add: FILESYSTEM_LEAKY_TAGS_def)
  note t = leaky_tags_always_excluded[OF m, of "no_options\<lparr>opt_extractAll := Some True\<rparr>" ?tags
      "''photo.jpg''" "''2024-01-01T00:00:00.000Z''" "Fin 2048"]
  have "\<exists>data. buildImageData ?tags ''photo.jpg'' ''2024-01-01T00:00:00.000Z'' (Fin 2048)
                 (ld_tagsToExtract ?ld) (ld_excludeTagsSet ?ld) (ld_includeRawExif ?ld) = Inr data
             \<and> data ''ISO'' = Some (Val (SNum (Fin 400)))"
    by (simp add: createExifLoader_def no_options_def orDefault_def has_Set_of
        buildImageData_def andThen_def FILESYSTEM_LEAKY_TAGS_def)
  with t m show ?thesis by blast
qed


text \<open>
  The other unguarded steps: a property read that throws, for each of the four reads
  in turn, and an array that contains itself. An earlier case that applies answers
  before a later step can throw: a rational without \<^verbatim>\<open>toString\<close> is still divided, and
  a date-like object is converted without its \<^verbatim>\<open>valueOf\<close> being called.
\<close>

lemma toSerializable_accessor_throws:
  "toSerializable (JAcc (Inl msg) valueOfRead numRead denRead str) = Inl (AccessorThrew msg)
   \<and> toSerializable (JAcc (Inr None) (Inl msg) numRead denRead str) = Inl (AccessorThrew msg)
   \<and> toSerializable (JAcc (Inr None) (Inr (Some VOther)) (Inl msg) denRead str)
       = Inl (AccessorThrew msg)
   \<and> toSerializable (JAcc (Inr None) (Inr (Some VOther)) (Inr (JNum n)) (Inl msg) str)
       = Inl (AccessorThrew msg)"
  by simp

lemma toSerializable_cyclic_throws:
  "toSerializable (JArr [JStr ''a'', JArr [JNum (Fin 1), JCycle]]) = Inl RangeError"
  by simp

lemma toSerializable_earlier_case_answers:
  "toSerializable (nullProtoObject [(''num'', JNum (Fin 1)), (''den'', JNum (Fin 2))])
     = Inr (SNum (Fin (1 / 2)))
   \<and> toSerializable (JObj (Some (Some isoString)) (Some (VThrows msg)) ps None)
     = Inr (SStr isoString)"
  by (simp add: nullProtoObject_def)



section \<open>Claims about the importer\<close>

lemma length_filter_eq_iff: "length (filter P xs) = length xs \<longleftrightarrow> (\<forall>x \<in> set xs. P x)"
proof (induction xs)
  case Nil
  show ?case by simp
next
  case (Cons x xs)
  have "length (filter P xs) \<le> length xs" by (rule length_filter_le)
  then have "length (filter P xs) \<noteq> Suc (length xs)" by arith
  with Cons show ?case by auto
qed


lemma sequence_Inl: "sequence rs = Inl err \<Longrightarrow> Inl err \<in> set rs"
  by (induction rs) (auto split: sum.splits)

lemma importEntry_error: "importEntry filesMap e = Inl err \<Longrightarrow> err = TypeError"
  by (auto simp: importEntry_def Let_def
        split: if_splits option.splits field.splits sval.splits prod.splits)

lemma typed_truthy: "srcPath_typed e \<Longrightarrow> truthy_field (ce_data e ''srcPath'') \<longleftrightarrow> importable e"
  by (auto simp: srcPath_typed_def importable_def
        split: option.splits field.splits sval.splits)

lemma importable_truthy: "importable e \<Longrightarrow> truthy_field (ce_data e ''srcPath'')"
  by (auto simp: importable_def split: option.splits field.splits sval.splits)

lemma importEntry_typed:
  assumes "srcPath_typed e"
  shows "\<exists>ws r. importEntry filesMap e = Inr (ws, r)
           \<and> im_id r = ce_id e \<and> im_collection r = ce_collection e \<and> im_data r = ce_data e
           \<and> (\<not> importable e \<longrightarrow> im_defaultImport r = None)"
proof (cases "importable e")
  case True
  then obtain p where "ce_data e ''srcPath'' = Some (Val (SStr p))" and "p \<noteq> []"
    by (auto simp: importable_def split: option.splits field.splits sval.splits)
  with True show ?thesis
    by (simp add: importEntry_def Let_def split: prod.splits)
next
  case False
  with assms have "\<not> truthy_field (ce_data e ''srcPath'')" by (simp add: typed_truthy)
  with False show ?thesis by (simp add: importEntry_def Let_def)
qed

lemma importEntries_typed:
  assumes "\<forall>e \<in> set entries. srcPath_typed e"
  shows "\<exists>results. sequence (map (importEntry filesMap) entries) = Inr results
           \<and> list_all2 (\<lambda>e r. im_id r = ce_id e \<and> im_collection r = ce_collection e
                               \<and> im_data r = ce_data e
                               \<and> (\<not> importable e \<longrightarrow> im_defaultImport r = None))
               entries (map snd results)"
  using assms
proof (induction entries)
  case Nil
  show ?case by simp
next
  case (Cons e entries)
  from Cons.prems have "srcPath_typed e" by simp
  from importEntry_typed[OF this, of filesMap] obtain ws r where
    e: "importEntry filesMap e = Inr (ws, r)"
    and f: "im_id r = ce_id e \<and> im_collection r = ce_collection e \<and> im_data r = ce_data e
            \<and> (\<not> importable e \<longrightarrow> im_defaultImport r = None)"
    by blast
  from Cons obtain results where
    s: "sequence (map (importEntry filesMap) entries) = Inr results"
    and l: "list_all2 (\<lambda>e r. im_id r = ce_id e \<and> im_collection r = ce_collection e
                               \<and> im_data r = ce_data e
                               \<and> (\<not> importable e \<longrightarrow> im_defaultImport r = None))
               entries (map snd results)"
    by auto
  from e s have "sequence (map (importEntry filesMap) (e # entries)) = Inr ((ws, r) # results)"
    by simp
  moreover from f l have "list_all2 (\<lambda>e r. im_id r = ce_id e \<and> im_collection r = ce_collection e
                               \<and> im_data r = ce_data e
                               \<and> (\<not> importable e \<longrightarrow> im_defaultImport r = None))
               (e # entries) (map snd ((ws, r) # results))"
    by simp
  ultimately show ?case by blast
qed

lemma missing_count:
  "0 < length (filter P entries) \<longleftrightarrow> (\<exists>e \<in> set entries. P e)"
  by (simp add: filter_empty_conv)

lemma imageImporter_only_under_src:
  "imageImporter filesMap entries = Inl only_under_src
   \<longleftrightarrow> (\<forall>e \<in> set entries. \<not> truthy_field (ce_data e ''srcPath''))"
proof (cases "\<forall>e \<in> set entries. \<not> truthy_field (ce_data e ''srcPath'')")
  case True
  then show ?thesis by (simp add: imageImporter_def Let_def length_filter_eq_iff)
next
  case False
  have "imageImporter filesMap entries \<noteq> Inl only_under_src"
  proof
    assume a: "imageImporter filesMap entries = Inl only_under_src"
    have "sequence (map (importEntry filesMap) entries) = Inl only_under_src"
    proof (cases "sequence (map (importEntry filesMap) entries)")
      case (Inl err)
      with False have "imageImporter filesMap entries = Inl err"
        by (auto simp: imageImporter_def Let_def length_filter_eq_iff)
      with a Inl show ?thesis by simp
    next
      case (Inr results)
      with False have "\<exists>x. imageImporter filesMap entries = Inr x"
        by (auto simp: imageImporter_def Let_def length_filter_eq_iff)
      with a show ?thesis by simp
    qed
    from sequence_Inl[OF this] obtain e where "importEntry filesMap e = Inl only_under_src"
      by auto
    from importEntry_error[OF this] show False by (simp add: only_under_src_def)
  qed
  with False show ?thesis by simp
qed

lemma imageImporter_typed:
  assumes "\<forall>e \<in> set entries. srcPath_typed e"
  shows "(\<forall>e \<in> set entries. \<not> importable e) \<longrightarrow> imageImporter filesMap entries = Inl only_under_src"
    and "(\<exists>e \<in> set entries. importable e) \<longrightarrow>
         (\<exists>ws rs. imageImporter filesMap entries = Inr (ws, rs)
            \<and> list_all2 (\<lambda>e r. im_id r = ce_id e \<and> im_collection r = ce_collection e
                                \<and> im_data r = ce_data e
                                \<and> (\<not> importable e \<longrightarrow> im_defaultImport r = None)) entries rs
            \<and> ((\<exists>e \<in> set entries. \<not> importable e) \<longrightarrow>
                  EntriesMissing (length (filter (\<lambda>e. \<not> importable e) entries)) \<in> set ws))"
proof -
  have f: "filter (\<lambda>e. \<not> truthy_field (ce_data e ''srcPath'')) entries
           = filter (\<lambda>e. \<not> importable e) entries"
    by (rule filter_cong) (use assms in \<open>auto simp: typed_truthy\<close>)
  show "(\<forall>e \<in> set entries. \<not> importable e) \<longrightarrow> imageImporter filesMap entries = Inl only_under_src"
    by (simp add: imageImporter_def Let_def f length_filter_eq_iff)
  show "(\<exists>e \<in> set entries. importable e) \<longrightarrow>
         (\<exists>ws rs. imageImporter filesMap entries = Inr (ws, rs)
            \<and> list_all2 (\<lambda>e r. im_id r = ce_id e \<and> im_collection r = ce_collection e
                                \<and> im_data r = ce_data e
                                \<and> (\<not> importable e \<longrightarrow> im_defaultImport r = None)) entries rs
            \<and> ((\<exists>e \<in> set entries. \<not> importable e) \<longrightarrow>
                  EntriesMissing (length (filter (\<lambda>e. \<not> importable e) entries)) \<in> set ws))"
  proof
    assume some: "\<exists>e \<in> set entries. importable e"
    from importEntries_typed[OF assms, of filesMap] obtain results where
      s: "sequence (map (importEntry filesMap) entries) = Inr results"
      and l: "list_all2 (\<lambda>e r. im_id r = ce_id e \<and> im_collection r = ce_collection e
                               \<and> im_data r = ce_data e
                               \<and> (\<not> importable e \<longrightarrow> im_defaultImport r = None))
               entries (map snd results)"
      by blast
    let ?ws = "(if \<exists>e \<in> set entries. \<not> importable e
                then [EntriesMissing (length (filter (\<lambda>e. \<not> importable e) entries))] else [])
               @ concat (map fst results)"
    from some s have r: "imageImporter filesMap entries = Inr (?ws, map snd results)"
      by (auto simp: imageImporter_def Let_def f length_filter_eq_iff filter_empty_conv)
    have w: "(\<exists>e \<in> set entries. \<not> importable e) \<longrightarrow>
             EntriesMissing (length (filter (\<lambda>e. \<not> importable e) entries)) \<in> set ?ws"
      by simp
    from r l w show "\<exists>ws rs. imageImporter filesMap entries = Inr (ws, rs)
            \<and> list_all2 (\<lambda>e r. im_id r = ce_id e \<and> im_collection r = ce_collection e
                                \<and> im_data r = ce_data e
                                \<and> (\<not> importable e \<longrightarrow> im_defaultImport r = None)) entries rs
            \<and> ((\<exists>e \<in> set entries. \<not> importable e) \<longrightarrow>
                  EntriesMissing (length (filter (\<lambda>e. \<not> importable e) entries)) \<in> set ws)"
      by blast
  qed
qed

text \<open>
  A record whose \<^verbatim>\<open>srcPath\<close> is truthy but not a string is not counted as missing, and
  its callback throws: the importer fails with a TypeError although another record is
  importable.
\<close>

lemma imageImporter_srcPath_not_a_string:
  "imageImporter filesMap
     [\<lparr>ce_id = ''n'', ce_collection = ''images'',
       ce_data = [''srcPath'' \<mapsto> Val (SNum (Fin 5))], ce_filePath = None\<rparr>,
      \<lparr>ce_id = ''a'', ce_collection = ''images'',
       ce_data = [''srcPath'' \<mapsto> Val (SStr ''content/images/a.jpg'')], ce_filePath = None\<rparr>]
   = Inl TypeError"
  by (simp add: imageImporter_def importEntry_def Let_def)

lemma importEntry2_fields:
  "im_id (snd (importEntry2 cwd filesMap e)) = ce_id e
   \<and> im_collection (snd (importEntry2 cwd filesMap e)) = ce_collection e
   \<and> im_data (snd (importEntry2 cwd filesMap e)) = ce_data e"
  by (simp add: importEntry2_def Let_def split: prod.splits)

lemma importEntry2_outside:
  "\<not> importable2 cwd e \<Longrightarrow> im_defaultImport (snd (importEntry2 cwd filesMap e)) = None"
  by (auto simp: importEntry2_def importable2_def Let_def)

lemma imageImporter2_eq:
  "imageImporter2 cwd filesMap (Entries entries) =
     (if \<forall>e \<in> set entries. \<not> importable2 cwd e then Inl only_under_src
      else Inr ((if \<exists>e \<in> set entries. \<not> importable2 cwd e
                 then [EntriesOutsideSrc (length (filter (\<lambda>e. \<not> importable2 cwd e) entries))]
                 else [])
                @ concat (map (\<lambda>e. fst (importEntry2 cwd filesMap e)) entries),
                Many (map (\<lambda>e. snd (importEntry2 cwd filesMap e)) entries)))"
  by (auto simp: imageImporter2_def Let_def importable2_def length_filter_eq_iff
        filter_empty_conv comp_def)

lemma imageImporter2_one:
  "imageImporter2 cwd filesMap (OneEntry e) =
     (if \<not> importable2 cwd e then Inl only_under_src
      else Inr (fst (importEntry2 cwd filesMap e), One (snd (importEntry2 cwd filesMap e))))"
  by (auto simp: imageImporter2_def Let_def importable2_def)


text \<open>Given \<^verbatim>\<open>undefined\<close>, the second importer returns \<^verbatim>\<open>null\<close>.\<close>

lemma imageImporter2_undefined: "imageImporter2 cwd filesMap NoEntry = Inr ([], Null)"
  by (simp add: imageImporter2_def)



text \<open>
  C9. The importer of \<^verbatim>\<open>importer.ts\<close> fails with the error "only works for images
  under /src" exactly when every requested record has a falsy \<^verbatim>\<open>srcPath\<close>. For records
  whose \<^verbatim>\<open>srcPath\<close> is a string or absent, as the collection's schema has it, that is
  its only failure: it fails exactly when no requested record has an importable source
  path, and when some record has one it returns a result for every record, in order,
  with a null \<^verbatim>\<open>defaultImport\<close> for each record that has none, and warns about the
  number of those records if there are any. The second importer, whose \<^verbatim>\<open>filePath\<close> is
  typed a string or absent, does the same; given a single record, it fails exactly when
  that record has no importable path.
\<close>

theorem importer_throws_iff_none_importable:
  "(imageImporter filesMap entries = Inl only_under_src
      \<longleftrightarrow> (\<forall>e \<in> set entries. \<not> truthy_field (ce_data e ''srcPath'')))
   \<and> ((\<forall>e \<in> set entries. srcPath_typed e) \<longrightarrow>
         ((\<exists>err. imageImporter filesMap entries = Inl err)
            \<longleftrightarrow> (\<forall>e \<in> set entries. \<not> importable e))
         \<and> (imageImporter filesMap entries = Inl only_under_src
            \<longleftrightarrow> (\<forall>e \<in> set entries. \<not> importable e))
         \<and> ((\<exists>e \<in> set entries. importable e) \<longrightarrow>
             (\<exists>ws rs. imageImporter filesMap entries = Inr (ws, rs)
                \<and> list_all2 (\<lambda>e r. im_id r = ce_id e \<and> im_collection r = ce_collection e
                                    \<and> im_data r = ce_data e
                                    \<and> (\<not> importable e \<longrightarrow> im_defaultImport r = None))
                      entries rs
                \<and> ((\<exists>e \<in> set entries. \<not> importable e) \<longrightarrow>
                      EntriesMissing (length (filter (\<lambda>e. \<not> importable e) entries))
                        \<in> set ws))))
   \<and> (imageImporter2 cwd filesMap (Entries entries) = Inl only_under_src
         \<longleftrightarrow> (\<forall>e \<in> set entries. \<not> importable2 cwd e))
   \<and> ((\<exists>e \<in> set entries. importable2 cwd e) \<longrightarrow>
         (\<exists>ws rs. imageImporter2 cwd filesMap (Entries entries) = Inr (ws, Many rs)
            \<and> list_all2 (\<lambda>e r. im_id r = ce_id e \<and> im_collection r = ce_collection e
                                \<and> im_data r = ce_data e
                                \<and> (\<not> importable2 cwd e \<longrightarrow> im_defaultImport r = None)) entries rs
            \<and> ((\<exists>e \<in> set entries. \<not> importable2 cwd e) \<longrightarrow>
                  EntriesOutsideSrc (length (filter (\<lambda>e. \<not> importable2 cwd e) entries)) \<in> set ws)))
   \<and> (imageImporter2 cwd filesMap (OneEntry entry) = Inl only_under_src
         \<longleftrightarrow> \<not> importable2 cwd entry)
   \<and> (importable2 cwd entry \<longrightarrow>
         (\<exists>ws r. imageImporter2 cwd filesMap (OneEntry entry) = Inr (ws, One r)
            \<and> im_id r = ce_id entry))"
proof (intro conjI impI)
  show "imageImporter filesMap entries = Inl only_under_src
      \<longleftrightarrow> (\<forall>e \<in> set entries. \<not> truthy_field (ce_data e ''srcPath''))"
    by (rule imageImporter_only_under_src)
next
  assume typed: "\<forall>e \<in> set entries. srcPath_typed e"
  note none = imageImporter_typed(1)[OF typed, of filesMap]
  note some = imageImporter_typed(2)[OF typed, of filesMap]
  show "(\<exists>err. imageImporter filesMap entries = Inl err)
            \<longleftrightarrow> (\<forall>e \<in> set entries. \<not> importable e)"
  proof
    assume "\<exists>err. imageImporter filesMap entries = Inl err"
    then obtain err where err: "imageImporter filesMap entries = Inl err" ..
    show "\<forall>e \<in> set entries. \<not> importable e"
    proof (rule ccontr)
      assume "\<not> (\<forall>e \<in> set entries. \<not> importable e)"
      then have "\<exists>e \<in> set entries. importable e" by simp
      with some obtain ws rs where "imageImporter filesMap entries = Inr (ws, rs)" by blast
      with err show False by simp
    qed
  next
    assume "\<forall>e \<in> set entries. \<not> importable e"
    with none show "\<exists>err. imageImporter filesMap entries = Inl err" by blast
  qed
next
  assume typed: "\<forall>e \<in> set entries. srcPath_typed e"
  then have "(\<forall>e \<in> set entries. \<not> truthy_field (ce_data e ''srcPath''))
             \<longleftrightarrow> (\<forall>e \<in> set entries. \<not> importable e)"
    by (auto simp: typed_truthy)
  then show "imageImporter filesMap entries = Inl only_under_src
            \<longleftrightarrow> (\<forall>e \<in> set entries. \<not> importable e)"
    by (simp add: imageImporter_only_under_src)
next
  assume typed: "\<forall>e \<in> set entries. srcPath_typed e"
    and "\<exists>e \<in> set entries. importable e"
  with imageImporter_typed(2)[OF typed, of filesMap]
  show "(\<exists>ws rs. imageImporter filesMap entries = Inr (ws, rs)
                \<and> list_all2 (\<lambda>e r. im_id r = ce_id e \<and> im_collection r = ce_collection e
                                    \<and> im_data r = ce_data e
                                    \<and> (\<not> importable e \<longrightarrow> im_defaultImport r = None))
                      entries rs
                \<and> ((\<exists>e \<in> set entries. \<not> importable e) \<longrightarrow>
                      EntriesMissing (length (filter (\<lambda>e. \<not> importable e) entries))
                        \<in> set ws))"
    by blast
next
  show "imageImporter2 cwd filesMap (Entries entries) = Inl only_under_src
         \<longleftrightarrow> (\<forall>e \<in> set entries. \<not> importable2 cwd e)"
    by (simp add: imageImporter2_eq)
next
  assume some: "\<exists>e \<in> set entries. importable2 cwd e"
  let ?ws = "(if \<exists>e \<in> set entries. \<not> importable2 cwd e
              then [EntriesOutsideSrc (length (filter (\<lambda>e. \<not> importable2 cwd e) entries))] else [])
             @ concat (map (\<lambda>e. fst (importEntry2 cwd filesMap e)) entries)"
  let ?rs = "map (\<lambda>e. snd (importEntry2 cwd filesMap e)) entries"
  from some have r: "imageImporter2 cwd filesMap (Entries entries) = Inr (?ws, Many ?rs)"
    by (simp add: imageImporter2_eq)
  have l: "list_all2 (\<lambda>e r. im_id r = ce_id e \<and> im_collection r = ce_collection e
                                \<and> im_data r = ce_data e
                                \<and> (\<not> importable2 cwd e \<longrightarrow> im_defaultImport r = None)) entries ?rs"
    by (simp add: list_all2_map2 list_all2_same importEntry2_fields importEntry2_outside)
  have w: "(\<exists>e \<in> set entries. \<not> importable2 cwd e) \<longrightarrow>
             EntriesOutsideSrc (length (filter (\<lambda>e. \<not> importable2 cwd e) entries)) \<in> set ?ws"
    by simp
  from r l w show "\<exists>ws rs. imageImporter2 cwd filesMap (Entries entries) = Inr (ws, Many rs)
            \<and> list_all2 (\<lambda>e r. im_id r = ce_id e \<and> im_collection r = ce_collection e
                                \<and> im_data r = ce_data e
                                \<and> (\<not> importable2 cwd e \<longrightarrow> im_defaultImport r = None)) entries rs
            \<and> ((\<exists>e \<in> set entries. \<not> importable2 cwd e) \<longrightarrow>
                  EntriesOutsideSrc (length (filter (\<lambda>e. \<not> importable2 cwd e) entries)) \<in> set ws)"
    by blast
next
  show "imageImporter2 cwd filesMap (OneEntry entry) = Inl only_under_src
         \<longleftrightarrow> \<not> importable2 cwd entry"
    by (simp add: imageImporter2_one)
next
  assume "importable2 cwd entry"
  then show "\<exists>ws r. imageImporter2 cwd filesMap (OneEntry entry) = Inr (ws, One r)
            \<and> im_id r = ce_id entry"
    by (simp add: imageImporter2_one importEntry2_fields)
qed

theorem importer_throws_iff_none_importable_witness:
  "importable (\<lparr>ce_id = ''a'', ce_collection = ''images'',
          ce_data = [''srcPath'' \<mapsto> Val (SStr ''content/images/a.jpg'')],
          ce_filePath = Some ''src/content/images/a.jpg''\<rparr>)
   \<and> \<not> importable (\<lparr>ce_id = ''b'', ce_collection = ''images'',
          ce_data = [''srcPath'' \<mapsto> Val (SStr [])],
          ce_filePath = Some ''public/b.jpg''\<rparr>)
   \<and> srcPath_typed (\<lparr>ce_id = ''a'', ce_collection = ''images'',
          ce_data = [''srcPath'' \<mapsto> Val (SStr ''content/images/a.jpg'')],
          ce_filePath = Some ''src/content/images/a.jpg''\<rparr>)
   \<and> srcPath_typed (\<lparr>ce_id = ''b'', ce_collection = ''images'',
          ce_data = [''srcPath'' \<mapsto> Val (SStr [])],
          ce_filePath = Some ''public/b.jpg''\<rparr>)
   \<and> imageImporter [''/src/content/images/a.jpg'' \<mapsto> Module (Some ''a-image'')] [(\<lparr>ce_id = ''b'', ce_collection = ''images'',
          ce_data = [''srcPath'' \<mapsto> Val (SStr [])],
          ce_filePath = Some ''public/b.jpg''\<rparr>)] = Inl only_under_src
   \<and> (\<exists>ws rs. imageImporter [''/src/content/images/a.jpg'' \<mapsto> Module (Some ''a-image'')] [(\<lparr>ce_id = ''a'', ce_collection = ''images'',
          ce_data = [''srcPath'' \<mapsto> Val (SStr ''content/images/a.jpg'')],
          ce_filePath = Some ''src/content/images/a.jpg''\<rparr>), (\<lparr>ce_id = ''b'', ce_collection = ''images'',
          ce_data = [''srcPath'' \<mapsto> Val (SStr [])],
          ce_filePath = Some ''public/b.jpg''\<rparr>)] = Inr (ws, rs)
         \<and> EntriesMissing 1 \<in> set ws
         \<and> map im_id rs = [''a'', ''b'']
         \<and> map im_defaultImport rs = [Some ''a-image'', None])
   \<and> importable2 ''/proj'' (\<lparr>ce_id = ''a'', ce_collection = ''images'',
          ce_data = [''srcPath'' \<mapsto> Val (SStr ''content/images/a.jpg'')],
          ce_filePath = Some ''src/content/images/a.jpg''\<rparr>)
   \<and> \<not> importable2 ''/proj'' (\<lparr>ce_id = ''b'', ce_collection = ''images'',
          ce_data = [''srcPath'' \<mapsto> Val (SStr [])],
          ce_filePath = Some ''public/b.jpg''\<rparr>)
   \<and> imageImporter2 ''/proj'' [''/src/content/images/a.jpg'' \<mapsto> Module (Some ''a-image'')] (Entries [(\<lparr>ce_id = ''b'', ce_collection = ''images'',
          ce_data = [''srcPath'' \<mapsto> Val (SStr [])],
          ce_filePath = Some ''public/b.jpg''\<rparr>)]) = Inl only_under_src
   \<and> imageImporter2 ''/proj'' [''/src/content/images/a.jpg'' \<mapsto> Module (Some ''a-image'')] (OneEntry (\<lparr>ce_id = ''b'', ce_collection = ''images'',
          ce_data = [''srcPath'' \<mapsto> Val (SStr [])],
          ce_filePath = Some ''public/b.jpg''\<rparr>)) = Inl only_under_src
   \<and> (\<exists>ws rs. imageImporter2 ''/proj'' [''/src/content/images/a.jpg'' \<mapsto> Module (Some ''a-image'')] (Entries [(\<lparr>ce_id = ''a'', ce_collection = ''images'',
          ce_data = [''srcPath'' \<mapsto> Val (SStr ''content/images/a.jpg'')],
          ce_filePath = Some ''src/content/images/a.jpg''\<rparr>), (\<lparr>ce_id = ''b'', ce_collection = ''images'',
          ce_data = [''srcPath'' \<mapsto> Val (SStr [])],
          ce_filePath = Some ''public/b.jpg''\<rparr>)]) = Inr (ws, Many rs)
         \<and> EntriesOutsideSrc 1 \<in> set ws
         \<and> map im_id rs = [''a'', ''b'']
         \<and> map im_defaultImport rs = [Some ''a-image'', None])"
proof -
  let ?A = "(\<lparr>ce_id = ''a'', ce_collection = ''images'',
          ce_data = [''srcPath'' \<mapsto> Val (SStr ''content/images/a.jpg'')],
          ce_filePath = Some ''src/content/images/a.jpg''\<rparr>)"
  let ?B = "(\<lparr>ce_id = ''b'', ce_collection = ''images'',
          ce_data = [''srcPath'' \<mapsto> Val (SStr [])],
          ce_filePath = Some ''public/b.jpg''\<rparr>)"
  let ?F = "[''/src/content/images/a.jpg'' \<mapsto> Module (Some ''a-image'')]"
  have a1: "importable ?A" and b1: "\<not> importable ?B"
    by (simp_all add: importable_def)
  have ta: "srcPath_typed ?A" and tb: "srcPath_typed ?B"
    by (simp_all add: srcPath_typed_def)
  from tb have tyB: "\<forall>e \<in> set [?B]. srcPath_typed e" by simp
  from ta tb have tyAB: "\<forall>e \<in> set [?A, ?B]. srcPath_typed e" by simp
  have paths: "pathResolve ''/proj'' [''/proj'', ''src''] = ''/proj/src''"
    "pathResolve ''/proj'' [''/proj'', ''src/content/images/a.jpg''] = ''/proj/src/content/images/a.jpg''"
    "pathResolve ''/proj'' [''/proj'', ''public/b.jpg''] = ''/proj/public/b.jpg''"
    by (simp_all add: pathResolve_def resolvedParts_def)
  have a2: "importable2 ''/proj'' ?A" and b2: "\<not> importable2 ''/proj'' ?B"
    by (simp_all add: importable2_def truthy_def orDefault_def insideSrc_def Let_def paths
          startsWith_def)
  have rel: "relative ''/proj'' ''/proj/src'' ''/proj/src/content/images/a.jpg''
             = ''content/images/a.jpg''"
    by (simp add: relative_def resolvedParts_def)
  have i1: "importEntry ?F ?A
            = Inr ([], \<lparr>im_id = ''a'', im_collection = ''images'',
                     im_data = [''srcPath'' \<mapsto> Val (SStr ''content/images/a.jpg'')],
                     im_filePath = Some ''src/content/images/a.jpg'',
                     im_defaultImport = Some ''a-image''\<rparr>)"
    by (simp add: importEntry_def startsWith_def importModule_def Let_def)
  have i1b: "importEntry ?F ?B
            = Inr ([EntryMissingSrcPath ''b''],
                   \<lparr>im_id = ''b'', im_collection = ''images'',
                     im_data = [''srcPath'' \<mapsto> Val (SStr [])],
                     im_filePath = Some ''public/b.jpg'',
                     im_defaultImport = None\<rparr>)"
    by (simp add: importEntry_def Let_def)
  have i2: "importEntry2 ''/proj'' ?F ?A
            = ([], \<lparr>im_id = ''a'', im_collection = ''images'',
                     im_data = [''srcPath'' \<mapsto> Val (SStr ''content/images/a.jpg'')],
                     im_filePath = None,
                     im_defaultImport = Some ''a-image''\<rparr>)"
    using a2
    by (simp add: importEntry2_def importable2_def orDefault_def Let_def paths rel slashes_def
          importModule_def)
  note t1 = importer_throws_iff_none_importable[of ?F "[?B]" "''/proj''" ?B]
  note t2 = importer_throws_iff_none_importable[of ?F "[?A, ?B]" "''/proj''" ?B]
  note t1typed = t1[THEN conjunct2, THEN conjunct1, THEN mp, OF tyB]
  note t2typed = t2[THEN conjunct2, THEN conjunct1, THEN mp, OF tyAB]
  from t1typed[THEN conjunct2, THEN conjunct1] b1
  have c3: "imageImporter ?F [?B] = Inl only_under_src" by simp
  from t1 b2 have c7: "imageImporter2 ''/proj'' ?F (Entries [?B]) = Inl only_under_src" by simp
  from t1 b2 have c8: "imageImporter2 ''/proj'' ?F (OneEntry ?B) = Inl only_under_src" by simp
  from t2typed[THEN conjunct2, THEN conjunct2] a1
  obtain ws rs where r: "imageImporter ?F [?A, ?B] = Inr (ws, rs)"
    and w: "(\<exists>e \<in> set [?A, ?B]. \<not> importable e) \<longrightarrow>
             EntriesMissing (length (filter (\<lambda>e. \<not> importable e) [?A, ?B])) \<in> set ws"
    by auto
  from w a1 b1 have w1: "EntriesMissing 1 \<in> set ws" by simp
  have "\<exists>ws'. imageImporter ?F [?A, ?B]
          = Inr (ws', [\<lparr>im_id = ''a'', im_collection = ''images'',
                        im_data = [''srcPath'' \<mapsto> Val (SStr ''content/images/a.jpg'')],
                        im_filePath = Some ''src/content/images/a.jpg'',
                        im_defaultImport = Some ''a-image''\<rparr>,
                       \<lparr>im_id = ''b'', im_collection = ''images'',
                        im_data = [''srcPath'' \<mapsto> Val (SStr [])],
                        im_filePath = Some ''public/b.jpg'',
                        im_defaultImport = None\<rparr>])"
    by (simp add: imageImporter_def Let_def i1 i1b)
  with r have rs: "rs = [\<lparr>im_id = ''a'', im_collection = ''images'',
                        im_data = [''srcPath'' \<mapsto> Val (SStr ''content/images/a.jpg'')],
                        im_filePath = Some ''src/content/images/a.jpg'',
                        im_defaultImport = Some ''a-image''\<rparr>,
                       \<lparr>im_id = ''b'', im_collection = ''images'',
                        im_data = [''srcPath'' \<mapsto> Val (SStr [])],
                        im_filePath = Some ''public/b.jpg'',
                        im_defaultImport = None\<rparr>]"
    by auto
  have d1: "map im_defaultImport rs = [Some ''a-image'', None]"
    unfolding rs by simp
  have n1: "map im_id rs = [''a'', ''b'']"
    unfolding rs by simp
  from t2[THEN conjunct2, THEN conjunct2, THEN conjunct2, THEN conjunct1] a2
  obtain ws2 rs2 where r2: "imageImporter2 ''/proj'' ?F (Entries [?A, ?B]) = Inr (ws2, Many rs2)"
    and w2: "(\<exists>e \<in> set [?A, ?B]. \<not> importable2 ''/proj'' e) \<longrightarrow>
             EntriesOutsideSrc (length (filter (\<lambda>e. \<not> importable2 ''/proj'' e) [?A, ?B])) \<in> set ws2"
    by auto
  from w2 a2 b2 have w3: "EntriesOutsideSrc 1 \<in> set ws2" by simp
  from r2 a2 b2 have rs2: "rs2 = [snd (importEntry2 ''/proj'' ?F ?A), snd (importEntry2 ''/proj'' ?F ?B)]"
    by (simp add: imageImporter2_eq)
  have d2: "map im_defaultImport rs2 = [Some ''a-image'', None]"
    unfolding rs2 using importEntry2_outside[OF b2, of ?F] by (simp add: i2)
  have n2: "map im_id rs2 = [''a'', ''b'']"
    unfolding rs2 by (simp add: importEntry2_fields)
  from r w1 n1 d1 have e1: "\<exists>ws rs. imageImporter ?F [?A, ?B] = Inr (ws, rs)
         \<and> EntriesMissing 1 \<in> set ws
         \<and> map im_id rs = [''a'', ''b'']
         \<and> map im_defaultImport rs = [Some ''a-image'', None]"
    by (intro exI conjI)
  from r2 w3 n2 d2 have e2: "\<exists>ws rs. imageImporter2 ''/proj'' ?F (Entries [?A, ?B]) = Inr (ws, Many rs)
         \<and> EntriesOutsideSrc 1 \<in> set ws
         \<and> map im_id rs = [''a'', ''b'']
         \<and> map im_defaultImport rs = [Some ''a-image'', None]"
    by (intro exI conjI)
  from a1 b1 ta tb c3 e1 a2 b2 c7 c8 e2 show ?thesis by (intro conjI)
qed

text \<open>
  C10. Called with an empty array, both importers fail with the error "only works for
  images under /src": zero records missing equals zero records given.
\<close>

theorem importer_empty_array_throws:
  "imageImporter filesMap [] = Inl only_under_src
   \<and> imageImporter2 cwd filesMap (Entries []) = Inl only_under_src"
  by (simp add: imageImporter_def imageImporter2_def)

section \<open>Claims about change detection and identifiers\<close>

lemma processImage_outcome:
  "fst (processImage env filePath w rootPath tagsToExtract excludeTags includeRawExif) = Skipped
   \<longleftrightarrow> (\<exists>stats e. env_stat env filePath = Inr stats
          \<and> store_get (w_store w) (storedId (env_cwd env) rootPath filePath) = Some e
          \<and> ent_data e ''mtime'' = Some (Val (SStr (st_mtime stats))))"
proof (cases "env_stat env filePath")
  case (Inl msg)
  then show ?thesis by (simp add: processImage_def Let_def)
next
  case (Inr stats)
  show ?thesis
  proof (cases "store_get (w_store w) (storedId (env_cwd env) rootPath filePath)")
    case None
    with Inr show ?thesis
      by (simp add: processImage_def storedId_def Let_def split: sum.splits prod.splits)
  next
    case (Some e)
    with Inr show ?thesis
      by (simp add: processImage_def storedId_def Let_def split: sum.splits prod.splits)
  qed
qed


lemma processImage_skipped_unchanged:
  assumes "fst (processImage env filePath w rootPath tagsToExtract excludeTags includeRawExif) = Skipped"
  shows "snd (processImage env filePath w rootPath tagsToExtract excludeTags includeRawExif) = w"
proof -
  from assms obtain stats e where "env_stat env filePath = Inr stats"
    and "store_get (w_store w) (storedId (env_cwd env) rootPath filePath) = Some e"
    and "ent_data e ''mtime'' = Some (Val (SStr (st_mtime stats)))"
    unfolding processImage_outcome by blast
  then show ?thesis by (simp add: processImage_def storedId_def Let_def)
qed

lemma processImage2_outcome:
  "fst (processImage2 env filePath w rootPath tagsToExtract excludeTags includeRawExif basePath)
     = Skipped
   \<longleftrightarrow> (\<exists>stats e. env_stat env filePath = Inr stats
          \<and> store_get (w_store w) (storedId2 (env_cwd env) rootPath basePath filePath) = Some e
          \<and> ent_data e ''mtime'' = Some (Val (SStr (st_mtime stats))))"
proof (cases "env_stat env filePath")
  case (Inl msg)
  then show ?thesis by (simp add: processImage2_def Let_def)
next
  case (Inr stats)
  show ?thesis
  proof (cases "store_get (w_store w) (storedId2 (env_cwd env) rootPath basePath filePath)")
    case None
    with Inr show ?thesis
      by (simp add: processImage2_def storedId2_def Let_def split: sum.splits prod.splits)
  next
    case (Some e)
    with Inr show ?thesis
      by (simp add: processImage2_def storedId2_def Let_def split: sum.splits prod.splits)
  qed
qed

lemma processImage2_skipped_unchanged:
  assumes "fst (processImage2 env filePath w rootPath tagsToExtract excludeTags includeRawExif basePath)
     = Skipped"
  shows "snd (processImage2 env filePath w rootPath tagsToExtract excludeTags includeRawExif basePath)
       = w"
proof -
  from assms obtain stats e where "env_stat env filePath = Inr stats"
    and "store_get (w_store w) (storedId2 (env_cwd env) rootPath basePath filePath) = Some e"
    and "ent_data e ''mtime'' = Some (Val (SStr (st_mtime stats)))"
    unfolding processImage2_outcome by blast
  then show ?thesis by (simp add: processImage2_def storedId2_def Let_def)
qed

lemma processImage_processed:
  assumes stat: "env_stat env filePath = Inr stats"
    and changed: "\<not> (\<exists>e. store_get (w_store w) (storedId (env_cwd env) rootPath filePath) = Some e
                       \<and> ent_data e ''mtime'' = Some (Val (SStr (st_mtime stats))))"
  shows "(case buildImageData (case env_read env filePath of Inl msg \<Rightarrow> [] | Inr t \<Rightarrow> t)
                 (basename filePath) (st_mtime stats) (st_size stats)
                 tagsToExtract excludeTags includeRawExif of
            Inl err \<Rightarrow>
              fst (processImage env filePath w rootPath tagsToExtract excludeTags includeRawExif)
                = Failed
              \<and> w_store (snd (processImage env filePath w rootPath tagsToExtract excludeTags
                                 includeRawExif)) = w_store w
          | Inr imageData \<Rightarrow>
              fst (processImage env filePath w rootPath tagsToExtract excludeTags includeRawExif)
                = Stored (fst (store_set (w_store w)
                    \<lparr>ent_id = storedId (env_cwd env) rootPath filePath, ent_data = imageData,
                     ent_digest = env_digest env imageData,
                     ent_filePath = Some (relative (env_cwd env) rootPath filePath)\<rparr>))
              \<and> w_store (snd (processImage env filePath w rootPath tagsToExtract excludeTags
                                 includeRawExif))
                = snd (store_set (w_store w)
                    \<lparr>ent_id = storedId (env_cwd env) rootPath filePath, ent_data = imageData,
                     ent_digest = env_digest env imageData,
                     ent_filePath = Some (relative (env_cwd env) rootPath filePath)\<rparr>))"
proof -
  from changed have c: "\<not> (case store_get (w_store w) (storedId (env_cwd env) rootPath filePath) of
                             None \<Rightarrow> False
                           | Some e \<Rightarrow> ent_data e ''mtime'' = Some (Val (SStr (st_mtime stats))))"
    by (auto split: option.splits)
  show ?thesis
  proof (cases "env_read env filePath")
    case (Inl msg)
    show ?thesis
    proof (cases "buildImageData [] (basename filePath) (st_mtime stats) (st_size stats)
                    tagsToExtract excludeTags includeRawExif")
      case (Inl err)
      with \<open>env_read env filePath = Inl msg\<close> stat c show ?thesis
        by (simp add: processImage_def Let_def storedId_def logger_def)
    next
      case (Inr imageData)
      with \<open>env_read env filePath = Inl msg\<close> stat c show ?thesis
        by (simp add: processImage_def Let_def storedId_def logger_def split: prod.splits)
    qed
  next
    case (Inr t)
    show ?thesis
    proof (cases "buildImageData t (basename filePath) (st_mtime stats) (st_size stats)
                    tagsToExtract excludeTags includeRawExif")
      case (Inl err)
      with \<open>env_read env filePath = Inr t\<close> stat c show ?thesis
        by (simp add: processImage_def Let_def storedId_def logger_def)
    next
      case (Inr imageData)
      with \<open>env_read env filePath = Inr t\<close> stat c show ?thesis
        by (simp add: processImage_def Let_def storedId_def logger_def split: prod.splits)
    qed
  qed
qed

lemma processImage2_processed:
  assumes stat: "env_stat env filePath = Inr stats"
    and changed: "\<not> (\<exists>e. store_get (w_store w) (storedId2 (env_cwd env) rootPath basePath filePath)
                         = Some e
                       \<and> ent_data e ''mtime'' = Some (Val (SStr (st_mtime stats))))"
  shows "(case buildImageData (case env_read env filePath of Inl msg \<Rightarrow> [] | Inr t \<Rightarrow> t)
                 (basename (relFromBase (env_cwd env) rootPath basePath filePath))
                 (st_mtime stats) (st_size stats)
                 tagsToExtract excludeTags includeRawExif of
            Inl err \<Rightarrow>
              fst (processImage2 env filePath w rootPath tagsToExtract excludeTags includeRawExif
                     basePath) = Failed
              \<and> w_store (snd (processImage2 env filePath w rootPath tagsToExtract excludeTags
                                 includeRawExif basePath)) = w_store w
          | Inr built \<Rightarrow>
              fst (processImage2 env filePath w rootPath tagsToExtract excludeTags includeRawExif
                     basePath)
                = Stored (fst (store_set (w_store w)
                    \<lparr>ent_id = storedId2 (env_cwd env) rootPath basePath filePath,
                     ent_data = built(''srcPath'' \<mapsto>
                                  Val (SStr (srcPath_under (env_cwd env) rootPath filePath))),
                     ent_digest =
                       env_digest env
                         (built(''srcPath'' \<mapsto>
                            Val (SStr (srcPath_under (env_cwd env) rootPath filePath)))),
                     ent_filePath = Some (relative (env_cwd env) rootPath filePath)\<rparr>))
              \<and> w_store (snd (processImage2 env filePath w rootPath tagsToExtract excludeTags
                                 includeRawExif basePath))
                = snd (store_set (w_store w)
                    \<lparr>ent_id = storedId2 (env_cwd env) rootPath basePath filePath,
                     ent_data = built(''srcPath'' \<mapsto>
                                  Val (SStr (srcPath_under (env_cwd env) rootPath filePath))),
                     ent_digest =
                       env_digest env
                         (built(''srcPath'' \<mapsto>
                            Val (SStr (srcPath_under (env_cwd env) rootPath filePath)))),
                     ent_filePath = Some (relative (env_cwd env) rootPath filePath)\<rparr>))"
proof -
  from changed have c: "\<not> (case store_get (w_store w)
                                 (storedId2 (env_cwd env) rootPath basePath filePath) of
                             None \<Rightarrow> False
                           | Some e \<Rightarrow> ent_data e ''mtime'' = Some (Val (SStr (st_mtime stats))))"
    by (auto split: option.splits)
  note defs = processImage2_def Let_def storedId2_def relFromBase_def srcPath_under_def
    logger_def
  show ?thesis
  proof (cases "env_read env filePath")
    case (Inl msg)
    show ?thesis
    proof (cases "buildImageData []
                    (basename (relFromBase (env_cwd env) rootPath basePath filePath))
                    (st_mtime stats) (st_size stats) tagsToExtract excludeTags includeRawExif")
      case (Inl err)
      with \<open>env_read env filePath = Inl msg\<close> stat c show ?thesis
        unfolding defs by simp
    next
      case (Inr built)
      with \<open>env_read env filePath = Inl msg\<close> stat c show ?thesis
        unfolding defs by (simp split: prod.splits)
    qed
  next
    case (Inr t)
    show ?thesis
    proof (cases "buildImageData t
                    (basename (relFromBase (env_cwd env) rootPath basePath filePath))
                    (st_mtime stats) (st_size stats) tagsToExtract excludeTags includeRawExif")
      case (Inl err)
      with \<open>env_read env filePath = Inr t\<close> stat c show ?thesis
        unfolding defs by simp
    next
      case (Inr built)
      with \<open>env_read env filePath = Inr t\<close> stat c show ?thesis
        unfolding defs by (simp split: prod.splits)
    qed
  qed
qed


text \<open>
  C5. In both listings \<open>processImage\<close> takes its early return, leaving store and log as
  they were, exactly when \<^verbatim>\<open>stat\<close> succeeds, the store holds a record under the
  file's identifier, and that record's \<^verbatim>\<open>mtime\<close> is a string equal to the current
  \<^verbatim>\<open>stats.mtime.toISOString()\<close>. When \<^verbatim>\<open>stat\<close> succeeds and the record is absent, or
  its \<^verbatim>\<open>mtime\<close> differs in any character, the file is processed: the tags are what
  \<^verbatim>\<open>exiftool.read\<close> gives (none when it fails), the record is built from them, the
  current time stamp and the size, and it is handed to \<^verbatim>\<open>store.set\<close> under the file's
  identifier, whose result is the outcome and whose store is the new store; only when
  building the record throws is the store left as it was.
\<close>

theorem skipped_iff_same_mtime:
  "(fst (processImage env filePath w rootPath tagsToExtract excludeTags includeRawExif) = Skipped
      \<longleftrightarrow> (\<exists>stats e. env_stat env filePath = Inr stats
             \<and> store_get (w_store w) (storedId (env_cwd env) rootPath filePath) = Some e
             \<and> ent_data e ''mtime'' = Some (Val (SStr (st_mtime stats)))))
   \<and> (fst (processImage env filePath w rootPath tagsToExtract excludeTags includeRawExif) = Skipped
      \<longrightarrow> snd (processImage env filePath w rootPath tagsToExtract excludeTags includeRawExif) = w)
   \<and> (fst (processImage2 env filePath w rootPath tagsToExtract excludeTags includeRawExif basePath)
        = Skipped
      \<longleftrightarrow> (\<exists>stats e. env_stat env filePath = Inr stats
             \<and> store_get (w_store w) (storedId2 (env_cwd env) rootPath basePath filePath) = Some e
             \<and> ent_data e ''mtime'' = Some (Val (SStr (st_mtime stats)))))
   \<and> (fst (processImage2 env filePath w rootPath tagsToExtract excludeTags includeRawExif basePath)
        = Skipped
      \<longrightarrow> snd (processImage2 env filePath w rootPath tagsToExtract excludeTags includeRawExif
                basePath) = w)
   \<and> (env_stat env filePath = Inr stats \<longrightarrow>
       \<not> (\<exists>e. store_get (w_store w) (storedId (env_cwd env) rootPath filePath) = Some e
               \<and> ent_data e ''mtime'' = Some (Val (SStr (st_mtime stats)))) \<longrightarrow>
       (case buildImageData (case env_read env filePath of Inl msg \<Rightarrow> [] | Inr t \<Rightarrow> t)
                 (basename filePath) (st_mtime stats) (st_size stats)
                 tagsToExtract excludeTags includeRawExif of
            Inl err \<Rightarrow>
              fst (processImage env filePath w rootPath tagsToExtract excludeTags includeRawExif)
                = Failed
              \<and> w_store (snd (processImage env filePath w rootPath tagsToExtract excludeTags
                                 includeRawExif)) = w_store w
          | Inr imageData \<Rightarrow>
              fst (processImage env filePath w rootPath tagsToExtract excludeTags includeRawExif)
                = Stored (fst (store_set (w_store w)
                    \<lparr>ent_id = storedId (env_cwd env) rootPath filePath, ent_data = imageData,
                     ent_digest = env_digest env imageData,
                     ent_filePath = Some (relative (env_cwd env) rootPath filePath)\<rparr>))
              \<and> w_store (snd (processImage env filePath w rootPath tagsToExtract excludeTags
                                 includeRawExif))
                = snd (store_set (w_store w)
                    \<lparr>ent_id = storedId (env_cwd env) rootPath filePath, ent_data = imageData,
                     ent_digest = env_digest env imageData,
                     ent_filePath = Some (relative (env_cwd env) rootPath filePath)\<rparr>)))
   \<and> (env_stat env filePath = Inr stats \<longrightarrow>
       \<not> (\<exists>e. store_get (w_store w) (storedId2 (env_cwd env) rootPath basePath filePath) = Some e
               \<and> ent_data e ''mtime'' = Some (Val (SStr (st_mtime stats)))) \<longrightarrow>
       (case buildImageData (case env_read env filePath of Inl msg \<Rightarrow> [] | Inr t \<Rightarrow> t)
                 (basename (relFromBase (env_cwd env) rootPath basePath filePath))
                 (st_mtime stats) (st_size stats)
                 tagsToExtract excludeTags includeRawExif of
            Inl err \<Rightarrow>
              fst (processImage2 env filePath w rootPath tagsToExtract excludeTags includeRawExif
                     basePath) = Failed
              \<and> w_store (snd (processImage2 env filePath w rootPath tagsToExtract excludeTags
                                 includeRawExif basePath)) = w_store w
          | Inr built \<Rightarrow>
              fst (processImage2 env filePath w rootPath tagsToExtract excludeTags includeRawExif
                     basePath)
                = Stored (fst (store_set (w_store w)
                    \<lparr>ent_id = storedId2 (env_cwd env) rootPath basePath filePath,
                     ent_data = built(''srcPath'' \<mapsto>
                                  Val (SStr (srcPath_under (env_cwd env) rootPath filePath))),
                     ent_digest =
                       env_digest env
                         (built(''srcPath'' \<mapsto>
                            Val (SStr (srcPath_under (env_cwd env) rootPath filePath)))),
                     ent_filePath = Some (relative (env_cwd env) rootPath filePath)\<rparr>))
              \<and> w_store (snd (processImage2 env filePath w rootPath tagsToExtract excludeTags
                                 includeRawExif basePath))
                = snd (store_set (w_store w)
                    \<lparr>ent_id = storedId2 (env_cwd env) rootPath basePath filePath,
                     ent_data = built(''srcPath'' \<mapsto>
                                  Val (SStr (srcPath_under (env_cwd env) rootPath filePath))),
                     ent_digest =
                       env_digest env
                         (built(''srcPath'' \<mapsto>
                            Val (SStr (srcPath_under (env_cwd env) rootPath filePath)))),
                     ent_filePath = Some (relative (env_cwd env) rootPath filePath)\<rparr>)))"
  by (intro conjI impI)
     (rule processImage_outcome processImage_skipped_unchanged processImage2_outcome
        processImage2_skipped_unchanged processImage_processed processImage2_processed
      | assumption)+

text \<open>
  C5 at the stored time stamp \<^verbatim>\<open>2024-01-01T00:00:00.000Z\<close>: with the same time stamp
  the file is skipped and nothing changes; with a time stamp one millisecond later the
  record is replaced by one with the new time stamp; with an empty store the record is
  created. The last two parts are the second listing, whose identifier is \<^verbatim>\<open>photo\<close>
  and whose record has the file's \<^verbatim>\<open>srcPath\<close>.
\<close>

lemma example_storedId:
  "storedId ''/proj'' ''/proj/'' ''/proj/src/content/images/photo.jpg'' = ''content/images/photo.jpg''"
  by (simp add: storedId_def relative_def resolvedParts_def pathResolve_def slashes_def)

lemma example_ids2:
  "storedId2 ''/proj'' ''/proj/'' (Some ''/proj/src/content/images'') ''/proj/src/content/images/photo.jpg'' = ''photo''"
  "relFromBase ''/proj'' ''/proj/'' (Some ''/proj/src/content/images'') ''/proj/src/content/images/photo.jpg'' = ''photo.jpg''"
  "srcPath_under ''/proj'' ''/proj/'' ''/proj/src/content/images/photo.jpg'' = ''content/images/photo.jpg''"
  by (simp_all add: storedId2_def relFromBase_def srcPath_under_def relative_def
        resolvedParts_def pathResolve_def slashes_def extname_def basename_def startsWith_def)

theorem skipped_iff_same_mtime_witness:
  "fst (processImage (example_env ''2024-01-01T00:00:00.000Z'') ''/proj/src/content/images/photo.jpg''
          (\<lparr>w_store =
           [''content/images/photo.jpg'' \<mapsto>
              \<lparr>ent_id = ''content/images/photo.jpg'',
               ent_data = [''fileName'' \<mapsto> Val (SStr ''photo.jpg''),
                           ''mtime'' \<mapsto> Val (SStr ''2024-01-01T00:00:00.000Z'')],
               ent_digest = ''old-digest'',
               ent_filePath = Some ''src/content/images/photo.jpg''\<rparr>],
         w_log = []\<rparr>) ''/proj/'' None FILESYSTEM_LEAKY_TAGS False) = Skipped
   \<and> snd (processImage (example_env ''2024-01-01T00:00:00.000Z'') ''/proj/src/content/images/photo.jpg''
          (\<lparr>w_store =
           [''content/images/photo.jpg'' \<mapsto>
              \<lparr>ent_id = ''content/images/photo.jpg'',
               ent_data = [''fileName'' \<mapsto> Val (SStr ''photo.jpg''),
                           ''mtime'' \<mapsto> Val (SStr ''2024-01-01T00:00:00.000Z'')],
               ent_digest = ''old-digest'',
               ent_filePath = Some ''src/content/images/photo.jpg''\<rparr>],
         w_log = []\<rparr>) ''/proj/'' None FILESYSTEM_LEAKY_TAGS False)
       = (\<lparr>w_store =
           [''content/images/photo.jpg'' \<mapsto>
              \<lparr>ent_id = ''content/images/photo.jpg'',
               ent_data = [''fileName'' \<mapsto> Val (SStr ''photo.jpg''),
                           ''mtime'' \<mapsto> Val (SStr ''2024-01-01T00:00:00.000Z'')],
               ent_digest = ''old-digest'',
               ent_filePath = Some ''src/content/images/photo.jpg''\<rparr>],
         w_log = []\<rparr>)
   \<and> fst (processImage (example_env ''2024-01-01T00:00:00.001Z'') ''/proj/src/content/images/photo.jpg''
          (\<lparr>w_store =
           [''content/images/photo.jpg'' \<mapsto>
              \<lparr>ent_id = ''content/images/photo.jpg'',
               ent_data = [''fileName'' \<mapsto> Val (SStr ''photo.jpg''),
                           ''mtime'' \<mapsto> Val (SStr ''2024-01-01T00:00:00.000Z'')],
               ent_digest = ''old-digest'',
               ent_filePath = Some ''src/content/images/photo.jpg''\<rparr>],
         w_log = []\<rparr>) ''/proj/'' None FILESYSTEM_LEAKY_TAGS False) = Stored True
   \<and> (\<exists>e. w_store (snd (processImage (example_env ''2024-01-01T00:00:00.001Z'') ''/proj/src/content/images/photo.jpg''
          (\<lparr>w_store =
           [''content/images/photo.jpg'' \<mapsto>
              \<lparr>ent_id = ''content/images/photo.jpg'',
               ent_data = [''fileName'' \<mapsto> Val (SStr ''photo.jpg''),
                           ''mtime'' \<mapsto> Val (SStr ''2024-01-01T00:00:00.000Z'')],
               ent_digest = ''old-digest'',
               ent_filePath = Some ''src/content/images/photo.jpg''\<rparr>],
         w_log = []\<rparr>) ''/proj/'' None FILESYSTEM_LEAKY_TAGS False))
            ''content/images/photo.jpg'' = Some e
          \<and> ent_data e ''mtime'' = Some (Val (SStr ''2024-01-01T00:00:00.001Z''))
          \<and> ent_digest e = ''digest'')
   \<and> fst (processImage (example_env ''2024-01-01T00:00:00.000Z'') ''/proj/src/content/images/photo.jpg''
          empty_world ''/proj/'' None FILESYSTEM_LEAKY_TAGS False) = Stored True
   \<and> (\<exists>e. w_store (snd (processImage (example_env ''2024-01-01T00:00:00.000Z'') ''/proj/src/content/images/photo.jpg''
          empty_world ''/proj/'' None FILESYSTEM_LEAKY_TAGS False))
            ''content/images/photo.jpg'' = Some e
          \<and> ent_data e ''mtime'' = Some (Val (SStr ''2024-01-01T00:00:00.000Z''))
          \<and> ent_digest e = ''digest'')
   \<and> fst (processImage2 (example_env ''2024-01-01T00:00:00.000Z'') ''/proj/src/content/images/photo.jpg''
          (\<lparr>w_store =
           [''photo'' \<mapsto>
              \<lparr>ent_id = ''photo'',
               ent_data = [''fileName'' \<mapsto> Val (SStr ''photo.jpg''),
                           ''mtime'' \<mapsto> Val (SStr ''2024-01-01T00:00:00.000Z''),
                           ''srcPath'' \<mapsto> Val (SStr ''content/images/photo.jpg'')],
               ent_digest = ''old-digest'',
               ent_filePath = Some ''src/content/images/photo.jpg''\<rparr>],
         w_log = []\<rparr>) ''/proj/'' None FILESYSTEM_LEAKY_TAGS False (Some ''/proj/src/content/images'')) = Skipped
   \<and> fst (processImage2 (example_env ''2024-01-01T00:00:00.001Z'') ''/proj/src/content/images/photo.jpg''
          (\<lparr>w_store =
           [''photo'' \<mapsto>
              \<lparr>ent_id = ''photo'',
               ent_data = [''fileName'' \<mapsto> Val (SStr ''photo.jpg''),
                           ''mtime'' \<mapsto> Val (SStr ''2024-01-01T00:00:00.000Z''),
                           ''srcPath'' \<mapsto> Val (SStr ''content/images/photo.jpg'')],
               ent_digest = ''old-digest'',
               ent_filePath = Some ''src/content/images/photo.jpg''\<rparr>],
         w_log = []\<rparr>) ''/proj/'' None FILESYSTEM_LEAKY_TAGS False (Some ''/proj/src/content/images'')) = Stored True
   \<and> (\<exists>e. w_store (snd (processImage2 (example_env ''2024-01-01T00:00:00.001Z'') ''/proj/src/content/images/photo.jpg''
          (\<lparr>w_store =
           [''photo'' \<mapsto>
              \<lparr>ent_id = ''photo'',
               ent_data = [''fileName'' \<mapsto> Val (SStr ''photo.jpg''),
                           ''mtime'' \<mapsto> Val (SStr ''2024-01-01T00:00:00.000Z''),
                           ''srcPath'' \<mapsto> Val (SStr ''content/images/photo.jpg'')],
               ent_digest = ''old-digest'',
               ent_filePath = Some ''src/content/images/photo.jpg''\<rparr>],
         w_log = []\<rparr>) ''/proj/'' None FILESYSTEM_LEAKY_TAGS False (Some ''/proj/src/content/images'')))
            ''photo'' = Some e
          \<and> ent_data e ''mtime'' = Some (Val (SStr ''2024-01-01T00:00:00.001Z''))
          \<and> ent_data e ''srcPath'' = Some (Val (SStr ''content/images/photo.jpg'')))"
proof -
  let ?W = "(\<lparr>w_store =
           [''content/images/photo.jpg'' \<mapsto>
              \<lparr>ent_id = ''content/images/photo.jpg'',
               ent_data = [''fileName'' \<mapsto> Val (SStr ''photo.jpg''),
                           ''mtime'' \<mapsto> Val (SStr ''2024-01-01T00:00:00.000Z'')],
               ent_digest = ''old-digest'',
               ent_filePath = Some ''src/content/images/photo.jpg''\<rparr>],
         w_log = []\<rparr>)"
  note a = skipped_iff_same_mtime[THEN conjunct1,
      of "example_env ''2024-01-01T00:00:00.000Z''" "''/proj/src/content/images/photo.jpg''" ?W "''/proj/''" None FILESYSTEM_LEAKY_TAGS False]
  have 1: "fst (processImage (example_env ''2024-01-01T00:00:00.000Z'') ''/proj/src/content/images/photo.jpg''
          ?W ''/proj/'' None FILESYSTEM_LEAKY_TAGS False) = Skipped"
    unfolding a by (simp add: example_env_def example_storedId store_get_def)
  from skipped_iff_same_mtime[THEN conjunct2, THEN conjunct1, THEN mp, OF 1]
  have 2: "snd (processImage (example_env ''2024-01-01T00:00:00.000Z'') ''/proj/src/content/images/photo.jpg''
          ?W ''/proj/'' None FILESYSTEM_LEAKY_TAGS False) = ?W" .
  have 3: "fst (processImage (example_env ''2024-01-01T00:00:00.001Z'') ''/proj/src/content/images/photo.jpg''
          ?W ''/proj/'' None FILESYSTEM_LEAKY_TAGS False) = Stored True
   \<and> (\<exists>e. w_store (snd (processImage (example_env ''2024-01-01T00:00:00.001Z'') ''/proj/src/content/images/photo.jpg''
          ?W ''/proj/'' None FILESYSTEM_LEAKY_TAGS False))
            ''content/images/photo.jpg'' = Some e
          \<and> ent_data e ''mtime'' = Some (Val (SStr ''2024-01-01T00:00:00.001Z''))
          \<and> ent_digest e = ''digest'')"
  proof -
    let ?env = "example_env ''2024-01-01T00:00:00.001Z''"
    let ?stats = "\<lparr>st_mtime = ''2024-01-01T00:00:00.001Z'', st_size = Fin 2048\<rparr>"
    have st: "env_stat ?env ''/proj/src/content/images/photo.jpg'' = Inr ?stats"
      by (simp add: example_env_def)
    have ch: "\<not> (\<exists>e. store_get (w_store ?W) (storedId (env_cwd ?env) ''/proj/'' ''/proj/src/content/images/photo.jpg'') = Some e
                   \<and> ent_data e ''mtime'' = Some (Val (SStr (st_mtime ?stats))))"
      by (simp add: example_env_def example_storedId store_get_def )
    have b: "buildImageData (case env_read ?env ''/proj/src/content/images/photo.jpg'' of Inl msg \<Rightarrow> [] | Inr t \<Rightarrow> t)
               (basename ''/proj/src/content/images/photo.jpg'') (st_mtime ?stats) (st_size ?stats)
               None FILESYSTEM_LEAKY_TAGS False
             = Inr [''fileName'' \<mapsto> Val (SStr ''photo.jpg''), ''mtime'' \<mapsto> Val (SStr ''2024-01-01T00:00:00.001Z''),
               ''ISO'' \<mapsto> Val (SNum (Fin 400)), ''FileSize'' \<mapsto> Val (SNum (Fin 2048))]"
      by (simp add: example_env_def basename_def buildImageData_def andThen_def has_def
            FILESYSTEM_LEAKY_TAGS_def)
    note eff = skipped_iff_same_mtime[THEN conjunct2, THEN conjunct2, THEN conjunct2,
        THEN conjunct2, THEN conjunct1, THEN mp, OF st, THEN mp, OF ch,
        of None FILESYSTEM_LEAKY_TAGS False]
    from eff show ?thesis
      unfolding b
      by (simp add: store_set_def example_env_def example_storedId )
  qed

  have 4: "fst (processImage (example_env ''2024-01-01T00:00:00.000Z'') ''/proj/src/content/images/photo.jpg''
          empty_world ''/proj/'' None FILESYSTEM_LEAKY_TAGS False) = Stored True
   \<and> (\<exists>e. w_store (snd (processImage (example_env ''2024-01-01T00:00:00.000Z'') ''/proj/src/content/images/photo.jpg''
          empty_world ''/proj/'' None FILESYSTEM_LEAKY_TAGS False))
            ''content/images/photo.jpg'' = Some e
          \<and> ent_data e ''mtime'' = Some (Val (SStr ''2024-01-01T00:00:00.000Z''))
          \<and> ent_digest e = ''digest'')"
  proof -
    let ?env = "example_env ''2024-01-01T00:00:00.000Z''"
    let ?stats = "\<lparr>st_mtime = ''2024-01-01T00:00:00.000Z'', st_size = Fin 2048\<rparr>"
    have st: "env_stat ?env ''/proj/src/content/images/photo.jpg'' = Inr ?stats"
      by (simp add: example_env_def)
    have ch: "\<not> (\<exists>e. store_get (w_store empty_world) (storedId (env_cwd ?env) ''/proj/'' ''/proj/src/content/images/photo.jpg'') = Some e
                   \<and> ent_data e ''mtime'' = Some (Val (SStr (st_mtime ?stats))))"
      by (simp add: example_env_def example_storedId store_get_def empty_world_def)
    have b: "buildImageData (case env_read ?env ''/proj/src/content/images/photo.jpg'' of Inl msg \<Rightarrow> [] | Inr t \<Rightarrow> t)
               (basename ''/proj/src/content/images/photo.jpg'') (st_mtime ?stats) (st_size ?stats)
               None FILESYSTEM_LEAKY_TAGS False
             = Inr [''fileName'' \<mapsto> Val (SStr ''photo.jpg''), ''mtime'' \<mapsto> Val (SStr ''2024-01-01T00:00:00.000Z''),
               ''ISO'' \<mapsto> Val (SNum (Fin 400)), ''FileSize'' \<mapsto> Val (SNum (Fin 2048))]"
      by (simp add: example_env_def basename_def buildImageData_def andThen_def has_def
            FILESYSTEM_LEAKY_TAGS_def)
    note eff = skipped_iff_same_mtime[THEN conjunct2, THEN conjunct2, THEN conjunct2,
        THEN conjunct2, THEN conjunct1, THEN mp, OF st, THEN mp, OF ch,
        of None FILESYSTEM_LEAKY_TAGS False]
    from eff show ?thesis
      unfolding b
      by (simp add: store_set_def example_env_def example_storedId empty_world_def)
  qed

  let ?W2 = "(\<lparr>w_store =
           [''photo'' \<mapsto>
              \<lparr>ent_id = ''photo'',
               ent_data = [''fileName'' \<mapsto> Val (SStr ''photo.jpg''),
                           ''mtime'' \<mapsto> Val (SStr ''2024-01-01T00:00:00.000Z''),
                           ''srcPath'' \<mapsto> Val (SStr ''content/images/photo.jpg'')],
               ent_digest = ''old-digest'',
               ent_filePath = Some ''src/content/images/photo.jpg''\<rparr>],
         w_log = []\<rparr>)"
  have 5: "fst (processImage2 (example_env ''2024-01-01T00:00:00.000Z'') ''/proj/src/content/images/photo.jpg''
          ?W2 ''/proj/'' None FILESYSTEM_LEAKY_TAGS False (Some ''/proj/src/content/images'')) = Skipped"
    unfolding skipped_iff_same_mtime[THEN conjunct2, THEN conjunct2, THEN conjunct1,
      of "example_env ''2024-01-01T00:00:00.000Z''" "''/proj/src/content/images/photo.jpg''" ?W2 "''/proj/''" None FILESYSTEM_LEAKY_TAGS False
         "Some ''/proj/src/content/images''"]
    by (simp add: example_env_def example_ids2 store_get_def)
  have 6: "fst (processImage2 (example_env ''2024-01-01T00:00:00.001Z'') ''/proj/src/content/images/photo.jpg''
          ?W2 ''/proj/'' None FILESYSTEM_LEAKY_TAGS False (Some ''/proj/src/content/images'')) = Stored True
   \<and> (\<exists>e. w_store (snd (processImage2 (example_env ''2024-01-01T00:00:00.001Z'') ''/proj/src/content/images/photo.jpg''
          ?W2 ''/proj/'' None FILESYSTEM_LEAKY_TAGS False (Some ''/proj/src/content/images'')))
            ''photo'' = Some e
          \<and> ent_data e ''mtime'' = Some (Val (SStr ''2024-01-01T00:00:00.001Z''))
          \<and> ent_data e ''srcPath'' = Some (Val (SStr ''content/images/photo.jpg'')))"
  proof -
    let ?env = "example_env ''2024-01-01T00:00:00.001Z''"
    let ?stats = "\<lparr>st_mtime = ''2024-01-01T00:00:00.001Z'', st_size = Fin 2048\<rparr>"
    have st: "env_stat ?env ''/proj/src/content/images/photo.jpg'' = Inr ?stats"
      by (simp add: example_env_def)
    have ch: "\<not> (\<exists>e. store_get (w_store ?W2)
                     (storedId2 (env_cwd ?env) ''/proj/'' (Some ''/proj/src/content/images'') ''/proj/src/content/images/photo.jpg'') = Some e
                   \<and> ent_data e ''mtime'' = Some (Val (SStr (st_mtime ?stats))))"
      by (simp add: example_env_def example_ids2 store_get_def)
    have b: "buildImageData (case env_read ?env ''/proj/src/content/images/photo.jpg'' of Inl msg \<Rightarrow> [] | Inr t \<Rightarrow> t)
               (basename (relFromBase (env_cwd ?env) ''/proj/'' (Some ''/proj/src/content/images'') ''/proj/src/content/images/photo.jpg''))
               (st_mtime ?stats) (st_size ?stats)
               None FILESYSTEM_LEAKY_TAGS False
             = Inr [''fileName'' \<mapsto> Val (SStr ''photo.jpg''), ''mtime'' \<mapsto> Val (SStr ''2024-01-01T00:00:00.001Z''),
               ''ISO'' \<mapsto> Val (SNum (Fin 400)), ''FileSize'' \<mapsto> Val (SNum (Fin 2048))]"
      by (simp add: example_env_def example_ids2 basename_def buildImageData_def andThen_def
            has_def FILESYSTEM_LEAKY_TAGS_def)
    note eff = skipped_iff_same_mtime[THEN conjunct2, THEN conjunct2, THEN conjunct2,
        THEN conjunct2, THEN conjunct2, THEN mp, OF st, THEN mp, OF ch,
        of None FILESYSTEM_LEAKY_TAGS False]
    from eff show ?thesis
      unfolding b
      by (simp add: store_set_def example_env_def example_ids2)
  qed
  from 1 2 3[THEN conjunct1] 3[THEN conjunct2] 4[THEN conjunct1] 4[THEN conjunct2]
    5 6[THEN conjunct1] 6[THEN conjunct2]
  show ?thesis by (intro conjI)
qed

lemma onUnlink_deletes:
  "matches env (basePath_of env rootPath (ld_imagesDir ld)) (patterns_of (ld_imagesDir ld)) filePath
   \<Longrightarrow> w_store (onUnlink env ld rootPath filePath w)
       = store_delete (w_store w) (removedId filePath)"
  by (simp add: onUnlink_def removedId_def logger_def Let_def)

lemma onUnlink2_deletes:
  "matches env (basePath_of env rootPath (ld_imagesDir ld)) (patterns_of (ld_imagesDir ld)) filePath
   \<Longrightarrow> w_store (onUnlink2 env ld rootPath filePath w)
       = store_delete (w_store w)
           (removedId2 (env_cwd env) (basePath_of env rootPath (ld_imagesDir ld)) filePath)"
  by (simp add: onUnlink2_def removedId2_def logger_def Let_def)

text \<open>
  In the second listing the two identifiers differ only by the replacement of
  backslashes, which \<open>processImage2\<close> applies and \<open>onUnlink2\<close> does not.
\<close>

lemma stripped_ids_agree:
  assumes "basePath \<noteq> []"
    and "slashes (relative cwd basePath filePath) = relative cwd basePath filePath"
  shows "storedId2 cwd rootPath (Some basePath) filePath = removedId2 cwd basePath filePath"
  using assms by (simp add: storedId2_def removedId2_def)

lemma stripped_ids_backslash:
  "storedId2 ''/proj'' ''/proj/'' (Some ''/proj/src/content/images'')
     (''/proj/src/content/images/a'' @ [CHR 0x5C] @ ''b.jpg'') = ''a/b''
   \<and> removedId2 ''/proj'' ''/proj/src/content/images''
     (''/proj/src/content/images/a'' @ [CHR 0x5C] @ ''b.jpg'') = ''a'' @ [CHR 0x5C] @ ''b''"
  by (simp add: storedId2_def removedId2_def relative_def resolvedParts_def slashes_def
        extname_def basename_def)

lemma example_basePath:
  "basePath_of (example_env m) ''/proj/'' (ld_imagesDir (createExifLoader no_options))
   = ''/proj/src/content/images''"
  by (simp add: basePath_of_def example_env_def createExifLoader_def no_options_def
        orDefault_def truthy_def pathResolve_def resolvedParts_def)

lemma example_matches:
  "matches (example_env m) ''/proj/src/content/images''
     (patterns_of (ld_imagesDir (createExifLoader no_options))) ''/proj/src/content/images/photo.jpg''"
  by (simp add: matches_def example_env_def pathResolve_def resolvedParts_def startsWith_def)

lemma example_processImage:
  "w_store (snd (processImage (example_env m) ''/proj/src/content/images/photo.jpg'' w0 ''/proj/''
                   (ld_tagsToExtract (createExifLoader no_options))
                   (ld_excludeTagsSet (createExifLoader no_options))
                   (ld_includeRawExif (createExifLoader no_options))))
     ''content/images/photo.jpg'' \<noteq> None
   \<and> dom (w_store (snd (processImage (example_env m) ''/proj/src/content/images/photo.jpg'' w0 ''/proj/''
                   (ld_tagsToExtract (createExifLoader no_options))
                   (ld_excludeTagsSet (createExifLoader no_options))
                   (ld_includeRawExif (createExifLoader no_options)))))
     = insert ''content/images/photo.jpg'' (dom (w_store w0))"
proof -
  have sid: "slashes (relative ''/proj'' (pathResolve ''/proj'' [''/proj/'', ''src'']) ''/proj/src/content/images/photo.jpg'')
             = ''content/images/photo.jpg''"
    by (simp add: relative_def resolvedParts_def pathResolve_def slashes_def)
  have cfg: "ld_tagsToExtract (createExifLoader no_options) = Some []"
    "ld_includeRawExif (createExifLoader no_options) = False"
    by (simp_all add: createExifLoader_def no_options_def orDefault_def determineTagsToExtract_def)
  have b: "buildImageData ts fn mt fs (Some []) ex False
           = Inr [''fileName'' \<mapsto> Val (SStr fn), ''mtime'' \<mapsto> Val (SStr mt)]" for ts fn mt fs ex
    by (simp add: buildImageData_def andThen_def)
  show ?thesis
    by (auto simp: processImage_def Let_def sid cfg b example_env_def store_get_def
          store_set_def logger_def split: option.splits)
qed

text \<open>
  C4. Identifier consistency fails in the first listing: \<open>processImage\<close> files the
  record of \<^verbatim>\<open>/proj/src/content/images/photo.jpg\<close> under its path relative to
  \<^verbatim>\<open>/proj/src\<close>, while the \<^verbatim>\<open>unlink\<close> handler deletes the identifier
  \<^verbatim>\<open>basename(filePath)\<close>. After the file is added and then removed, its record is
  still in the store.
\<close>

theorem unlink_leaves_stored_record:
  "storedId ''/proj'' ''/proj/'' ''/proj/src/content/images/photo.jpg'' = ''content/images/photo.jpg''
   \<and> removedId ''/proj/src/content/images/photo.jpg'' = ''photo.jpg''
   \<and> dom (w_store (onAddOrChange (example_env ''2024-01-01T00:00:00.000Z'') (createExifLoader no_options) ''/proj/'' ''/proj/src/content/images/photo.jpg'' empty_world))
       = {''content/images/photo.jpg''}
   \<and> dom (w_store (onUnlink (example_env ''2024-01-01T00:00:00.000Z'') (createExifLoader no_options) ''/proj/'' ''/proj/src/content/images/photo.jpg''
                      (onAddOrChange (example_env ''2024-01-01T00:00:00.000Z'') (createExifLoader no_options) ''/proj/'' ''/proj/src/content/images/photo.jpg'' empty_world)))
       = {''content/images/photo.jpg''}"
proof -
  have 1: "storedId ''/proj'' ''/proj/'' ''/proj/src/content/images/photo.jpg'' = ''content/images/photo.jpg''"
    by (simp add: storedId_def relative_def resolvedParts_def pathResolve_def slashes_def)
  have 2: "removedId ''/proj/src/content/images/photo.jpg'' = ''photo.jpg''"
    by (simp add: removedId_def basename_def)
  have 3: "dom (w_store (onAddOrChange (example_env ''2024-01-01T00:00:00.000Z'') (createExifLoader no_options) ''/proj/'' ''/proj/src/content/images/photo.jpg'' empty_world))
       = {''content/images/photo.jpg''}"
    unfolding onAddOrChange_def Let_def example_basePath
    using example_matches[of "''2024-01-01T00:00:00.000Z''"]
      example_processImage[of "''2024-01-01T00:00:00.000Z''"
        "logger LInfo (FileUpdated ''/proj/src/content/images/photo.jpg'') empty_world"]
    by (simp add: logger_def empty_world_def)
  have m: "matches (example_env ''2024-01-01T00:00:00.000Z'') (basePath_of (example_env ''2024-01-01T00:00:00.000Z'') ''/proj/'' (ld_imagesDir (createExifLoader no_options))) (patterns_of (ld_imagesDir (createExifLoader no_options))) ''/proj/src/content/images/photo.jpg''"
    unfolding example_basePath by (rule example_matches)
  have 4: "dom (w_store (onUnlink (example_env ''2024-01-01T00:00:00.000Z'') (createExifLoader no_options) ''/proj/'' ''/proj/src/content/images/photo.jpg''
                      (onAddOrChange (example_env ''2024-01-01T00:00:00.000Z'') (createExifLoader no_options) ''/proj/'' ''/proj/src/content/images/photo.jpg'' empty_world)))
       = {''content/images/photo.jpg''}"
    unfolding onUnlink_deletes[OF m] 2 store_delete_def using 3 by simp
  from 1 2 3 4 show ?thesis by (intro conjI)
qed

end
